theory Spec2Isabelle
  imports Main "HOL-Library.Sublist"
begin

section \<open>JavaScript strings\<close>

text \<open>
  The codec of \<^verbatim>\<open>json.js\<close> works on JavaScript strings. A string is modelled as a
  \<^typ>\<open>string\<close>, a list of 8-bit characters: the code units below 256 of a JavaScript
  string. Indices are \<^typ>\<open>int\<close>, because \<^verbatim>\<open>indexOf\<close> answers -1 and
  \<^verbatim>\<open>substring\<close> accepts negative arguments.
\<close>

text \<open>\<^verbatim>\<open>String.prototype.indexOf(needle)\<close>: the first index at which \<open>needle\<close> starts, -1 when
  there is none.\<close>

fun indexOf_from :: "string \<Rightarrow> string \<Rightarrow> nat \<Rightarrow> int" where
  "indexOf_from [] needle i = (if needle = [] then int i else - 1)"
| "indexOf_from (c # cs) needle i =
     (if prefix needle (c # cs) then int i else indexOf_from cs needle (Suc i))"

definition indexOf :: "string \<Rightarrow> string \<Rightarrow> int" where
  "indexOf s needle = indexOf_from s needle 0"

text \<open>\<^verbatim>\<open>String.prototype.substring(start, end)\<close>: both arguments are clamped to
  \<open>[0, length]\<close> and swapped when \<open>start\<close> is the larger one.\<close>

definition substring :: "string \<Rightarrow> int \<Rightarrow> int \<Rightarrow> string" where
  "substring s start end =
     (let len = int (length s);
          a = max 0 (min start len);
          b = max 0 (min end len);
          lo = min a b;
          hi = max a b
      in take (nat (hi - lo)) (drop (nat lo) s))"

text \<open>\<^verbatim>\<open>substring(start)\<close> with one argument runs to the end of the string.\<close>

definition substring_from :: "string \<Rightarrow> int \<Rightarrow> string" where
  "substring_from s start = substring s start (int (length s))"

section \<open>The quote-state scanner: \<^verbatim>\<open>SaferParser.processUnquoted\<close>\<close>

datatype STATES = UNQUOTED | QUOTED

text \<open>
  The \<^verbatim>\<open>while (unprocessed.length > 0)\<close> loop of \<^verbatim>\<open>processUnquoted\<close>, with its three
  variables \<open>state\<close>, \<open>unprocessed\<close> and \<open>transformed_data\<close> as arguments.
\<close>

function processUnquoted_loop ::
  "(string \<Rightarrow> string) \<Rightarrow> STATES \<Rightarrow> string \<Rightarrow> string \<Rightarrow> string" where
  "processUnquoted_loop process_function state unprocessed transformed_data =
     (if length unprocessed > 0 then
        (let next_quote = indexOf unprocessed [CHR 0x22];
             section = (if next_quote \<noteq> - 1 then substring unprocessed 0 (next_quote + 1)
                        else substring_from unprocessed 0);
             unprocessed' = substring_from unprocessed (int (length section));
             transformed_data' = transformed_data @
               (if state = QUOTED then section else process_function section);
             state' = (if state = QUOTED then UNQUOTED else QUOTED)
         in processUnquoted_loop process_function state' unprocessed' transformed_data')
      else transformed_data)"
  by pat_completeness auto

lemma indexOf_from_range:
  "indexOf_from s needle i = - 1 \<or> (int i \<le> indexOf_from s needle i \<and>
     indexOf_from s needle i \<le> int i + int (length s))"
  by (induction s needle i rule: indexOf_from.induct) auto

lemma indexOf_range:
  "indexOf s needle = - 1 \<or> (0 \<le> indexOf s needle \<and> indexOf s needle \<le> int (length s))"
  using indexOf_from_range [of s needle 0] by (simp add: indexOf_def)

lemma substring_0: "0 \<le> n \<Longrightarrow> substring s 0 n = take (nat n) s"
proof (cases "n \<le> int (length s)")
  case True
  assume "0 \<le> n"
  with True show ?thesis by (simp add: substring_def Let_def)
next
  case False
  assume "0 \<le> n"
  with False show ?thesis by (simp add: substring_def Let_def)
qed

lemma substring_from_nat: "substring_from s (int k) = drop k s"
proof (cases "k \<le> length s")
  case True
  then show ?thesis by (simp add: substring_def substring_from_def Let_def)
next
  case False
  then show ?thesis by (simp add: substring_def substring_from_def Let_def)
qed

lemma substring_from_0: "substring_from s 0 = s"
  using substring_from_nat [of s 0] by simp

text \<open>The segment cut off by one turn of the loop is not empty, and the rest follows it.\<close>

lemma section_nonempty:
  assumes "length unprocessed > 0"
    and "sec = (if indexOf unprocessed [c] \<noteq> - 1
                then substring unprocessed 0 (indexOf unprocessed [c] + 1)
                else substring_from unprocessed 0)"
  shows "0 < length sec"
proof (cases "indexOf unprocessed [c] = - 1")
  case True
  then show ?thesis using assms by (simp add: substring_from_0)
next
  case False
  then have "0 \<le> indexOf unprocessed [c]"
    using indexOf_range [of unprocessed "[c]"] by simp
  then show ?thesis using False assms by (simp add: substring_0)
qed

lemma section_split:
  assumes "sec = (if indexOf unprocessed [c] \<noteq> - 1
                then substring unprocessed 0 (indexOf unprocessed [c] + 1)
                else substring_from unprocessed 0)"
  shows "sec @ substring_from unprocessed (int (length sec)) = unprocessed"
proof (cases "indexOf unprocessed [c] = - 1")
  case True
  then show ?thesis using assms by (simp add: substring_from_0 substring_from_nat)
next
  case False
  then have "0 \<le> indexOf unprocessed [c]"
    using indexOf_range [of unprocessed "[c]"] by simp
  then have "sec = take (nat (indexOf unprocessed [c] + 1)) unprocessed"
    using False assms by (simp add: substring_0)
  then show ?thesis
    by (cases "nat (indexOf unprocessed [c] + 1) \<le> length unprocessed")
      (simp_all add: substring_from_nat min_def)
qed

termination processUnquoted_loop
proof (relation "measure (\<lambda>(f, state, unprocessed, transformed). length unprocessed)", goal_cases)
  case 1
  show ?case by simp
next
  case (2 process_function state unprocessed transformed_data next_quote sec rest)
  from 2(1) have pos: "0 < length unprocessed" by simp
  have sec: "sec = (if indexOf unprocessed [CHR 0x22] \<noteq> - 1
      then substring unprocessed 0 (indexOf unprocessed [CHR 0x22] + 1)
      else substring_from unprocessed 0)"
    using 2(2) 2(3) by simp
  have "0 < length sec" using section_nonempty [OF pos sec] .
  moreover have "sec @ rest = unprocessed"
    using section_split [OF sec] 2(4) by simp
  ultimately have "length rest < length unprocessed"
    by (metis length_append less_add_same_cancel2 add.commute)
  then show ?case by simp
qed

declare processUnquoted_loop.simps [simp del]

definition processUnquoted :: "string \<Rightarrow> (string \<Rightarrow> string) \<Rightarrow> string" where
  "processUnquoted json_string process_function =
     processUnquoted_loop process_function UNQUOTED json_string []"

section \<open>Characters, digits and white space\<close>

text \<open>\<^verbatim>\<open>\d\<close> of a regular expression: the ten decimal digits.\<close>

definition is_digit :: "char \<Rightarrow> bool" where
  "is_digit c = (c \<in> set ''0123456789'')"

text \<open>White space as \<^verbatim>\<open>\s\<close>, \<^verbatim>\<open>String.prototype.trim\<close> and the numeric string grammar
  read it (WhiteSpace and LineTerminator), among the code units below 256: tab, line feed,
  vertical tab, form feed, carriage return, space and no-break space.\<close>

definition is_whitespace :: "char \<Rightarrow> bool" where
  "is_whitespace c =
     (c \<in> set [CHR 0x09, CHR 0x0A, CHR 0x0B, CHR 0x0C, CHR 0x0D, CHR 0x20, CHR 0xA0])"

definition trim :: "string \<Rightarrow> string" where
  "trim s = rev (dropWhile is_whitespace (rev (dropWhile is_whitespace s)))"

definition digit_char :: "nat \<Rightarrow> char" where
  "digit_char d = ''0123456789'' ! d"

text \<open>The decimal digits of a natural number, most significant first.\<close>

function decimal :: "nat \<Rightarrow> string" where
  "decimal n = (if n < 10 then [digit_char n] else decimal (n div 10) @ [digit_char (n mod 10)])"
  by pat_completeness auto
termination by (relation "measure (\<lambda>n. n)") auto

declare decimal.simps [simp del]

definition decimal_int :: "int \<Rightarrow> string" where
  "decimal_int i = (if i < 0 then CHR ''-'' # decimal (nat (- i)) else decimal (nat i))"

text \<open>Digits of a radix up to 36, in either case, and their values.\<close>

definition is_radix_digit :: "nat \<Rightarrow> char \<Rightarrow> bool" where
  "is_radix_digit radix c =
     (let v = (of_char c :: nat) in
      (48 \<le> v \<and> v < 48 + min radix 10) \<or>
      (97 \<le> v \<and> v + 10 < 97 + radix) \<or>
      (65 \<le> v \<and> v + 10 < 65 + radix))"

definition radix_digit_value :: "char \<Rightarrow> nat" where
  "radix_digit_value c =
     (let v = (of_char c :: nat) in
      if v < 58 then v - 48 else if 97 \<le> v then v - 87 else v - 55)"

definition radix_value :: "nat \<Rightarrow> string \<Rightarrow> nat" where
  "radix_value radix ds = foldl (\<lambda>acc c. acc * radix + radix_digit_value c) 0 ds"

section \<open>JavaScript numbers\<close>

text \<open>
  A Number is an IEEE 754 double. The codec only ever computes with integral Numbers
  (\<^verbatim>\<open>Number.parseInt\<close>, line and column numbers) and with the three non-finite ones, so a
  finite Number is modelled by the integer it denotes; \<open>Finite i\<close> is a Number only when
  \<open>i\<close> is a double, which \<open>round_to_double\<close> ensures. Negative zero is identified with
  zero: the code never divides by it and \<^verbatim>\<open>toString\<close> prints both as \<^verbatim>\<open>0\<close>.
\<close>

datatype jsnum = NaN | PosInfinity | NegInfinity | Finite int

function bit_length :: "nat \<Rightarrow> nat" where
  "bit_length n = (if n = 0 then 0 else Suc (bit_length (n div 2)))"
  by pat_completeness auto
termination by (relation "measure (\<lambda>n. n)") auto

declare bit_length.simps [simp del]

text \<open>Rounding a natural number to the nearest number with a 53-bit significand, ties to
  the even significand.\<close>

definition round_magnitude :: "nat \<Rightarrow> nat" where
  "round_magnitude a =
     (if a < 2 ^ 53 then a
      else (let e = bit_length a - 53;
                q = a div 2 ^ e;
                r = a mod 2 ^ e;
                half = 2 ^ (e - 1);
                q' = (if r > half \<or> (r = half \<and> odd q) then q + 1 else q)
            in q' * 2 ^ e))"

text \<open>The Number nearest to a mathematical integer; from \<open>2 ^ 1024\<close> on the rounded
  magnitude is no double and the result is infinite.\<close>

definition round_to_double :: "int \<Rightarrow> jsnum" where
  "round_to_double i =
     (let v = round_magnitude (nat \<bar>i\<bar>) in
      if v \<ge> 2 ^ 1024 then (if i < 0 then NegInfinity else PosInfinity)
      else Finite (if i < 0 then - int v else int v))"

text \<open>
  \<^verbatim>\<open>Number.prototype.toString()\<close> (ECMAScript, Number::toString) of a positive integral
  double \<open>a\<close> with \<open>n0\<close> decimal digits: the least number \<open>k\<close> of significant digits
  \<open>s\<close> such that \<open>s * 10 ^ (n - k)\<close> rounds to \<open>a\<close>; of the two neighbours of \<open>a\<close> with \<open>k\<close>
  digits the closer one, the even one in a tie. The answer is \<open>(k, s, n)\<close>.
\<close>

definition digits_candidate :: "nat \<Rightarrow> nat \<Rightarrow> nat \<Rightarrow> (nat \<times> nat \<times> nat) option" where
  "digits_candidate a n0 k =
     (let p = 10 ^ (n0 - k);
          lo = a div p;
          hi = lo + 1;
          r = a mod p;
          lo_ok = (round_magnitude (lo * p) = a);
          hi_ok = (round_magnitude (hi * p) = a);
          hi_result = (if hi = 10 ^ k then (k, 10 ^ (k - 1), n0 + 1) else (k, hi, n0))
      in if lo_ok \<and> hi_ok then
           (if r < p - r \<or> (r = p - r \<and> even lo) then Some (k, lo, n0) else Some hi_result)
         else if lo_ok then Some (k, lo, n0)
         else if hi_ok then Some hi_result
         else None)"

function shortest_digits :: "nat \<Rightarrow> nat \<Rightarrow> nat \<Rightarrow> nat \<times> nat \<times> nat" where
  "shortest_digits a n0 k =
     (if n0 \<le> k then (n0, a, n0)
      else (case digits_candidate a n0 k of
              Some r \<Rightarrow> r
            | None \<Rightarrow> shortest_digits a n0 (k + 1)))"
  by pat_completeness auto
termination by (relation "measure (\<lambda>(a, n0, k). n0 - k)") auto

declare shortest_digits.simps [simp del]

text \<open>Up to 21 integer digits are printed in full, larger numbers in exponent notation.\<close>

definition magnitude_toString :: "nat \<Rightarrow> string" where
  "magnitude_toString a =
     (case shortest_digits a (length (decimal a)) 1 of (k, s, n) \<Rightarrow>
        if n \<le> 21 then decimal s @ replicate (n - k) (CHR ''0'')
        else if k = 1 then decimal s @ ''e+'' @ decimal (n - 1)
        else (case decimal s of
                d # ds \<Rightarrow> d # CHR ''.'' # ds @ ''e+'' @ decimal (n - 1)
              | [] \<Rightarrow> []))"

fun Number_toString :: "jsnum \<Rightarrow> string" where
  "Number_toString NaN = ''NaN''"
| "Number_toString PosInfinity = ''Infinity''"
| "Number_toString NegInfinity = ''-Infinity''"
| "Number_toString (Finite i) =
     (if i = 0 then ''0''
      else if i < 0 then CHR ''-'' # magnitude_toString (nat (- i))
      else magnitude_toString (nat i))"

text \<open>
  \<^verbatim>\<open>Number.parseInt(string)\<close> with no radix: leading white space is skipped, a sign is
  read, a prefix \<^verbatim>\<open>0x\<close> selects radix 16, and the longest run of digits is the value,
  rounded to a Number; no digit at all gives \<^verbatim>\<open>NaN\<close>. (Beyond 20 significant digits
  ECMAScript lets an implementation round the digits; the model keeps them all.)
\<close>

definition parseInt :: "string \<Rightarrow> jsnum" where
  "parseInt input =
     (let s = dropWhile is_whitespace input;
          negative = (s \<noteq> [] \<and> hd s = CHR ''-'');
          s1 = (if s \<noteq> [] \<and> (hd s = CHR ''+'' \<or> hd s = CHR ''-'') then tl s else s);
          hex = (prefix ''0x'' s1 \<or> prefix ''0X'' s1);
          radix = (if hex then 16 else 10);
          s2 = (if hex then drop 2 s1 else s1);
          z = takeWhile (is_radix_digit radix) s2
      in if z = [] then NaN
         else round_to_double ((if negative then - 1 else 1) * int (radix_value radix z)))"

text \<open>\<open>n + k\<close> on Numbers, for an integer \<open>k\<close>.\<close>

fun number_add :: "jsnum \<Rightarrow> int \<Rightarrow> jsnum" where
  "number_add (Finite i) k = round_to_double (i + k)"
| "number_add n k = n"

section \<open>JavaScript values, exceptions and outcomes\<close>

text \<open>
  The values the codec handles: the primitive values, arrays, and plain objects as lists
  of their own properties in property order. Functions, accessors and prototypes other
  than the built-in ones are outside the model.
\<close>

datatype jsvalue =
    JUndefined
  | JNull
  | JBoolean bool
  | JNumber jsnum
  | JString string
  | JBigInt int
  | JArray "jsvalue list"
  | JObject "(string \<times> jsvalue) list"

text \<open>A thrown \<^verbatim>\<open>Error\<close> object, by its \<open>name\<close> and its \<open>message\<close>.\<close>

datatype exn = Error string string

text \<open>\<^verbatim>\<open>Error.prototype.toString\<close>.\<close>

fun error_toString :: "exn \<Rightarrow> string" where
  "error_toString (Error name msg) =
     (if msg = [] then name else if name = [] then msg else name @ '': '' @ msg)"

text \<open>
  What a call does: it returns a value, throws, or does not return (\<open>Diverges\<close>: an
  unbounded recursion, which an engine ends with a stack overflow).
\<close>

datatype 'a outcome = Returns 'a | Throws exn | Diverges

fun bind :: "'a outcome \<Rightarrow> ('a \<Rightarrow> 'b outcome) \<Rightarrow> 'b outcome" where
  "bind (Returns x) f = f x"
| "bind (Throws e) f = Throws e"
| "bind Diverges f = Diverges"

text \<open>\<^verbatim>\<open>typeof value\<close>.\<close>

fun js_typeof :: "jsvalue \<Rightarrow> string" where
  "js_typeof JUndefined = ''undefined''"
| "js_typeof JNull = ''object''"
| "js_typeof (JBoolean b) = ''boolean''"
| "js_typeof (JNumber n) = ''number''"
| "js_typeof (JString s) = ''string''"
| "js_typeof (JBigInt i) = ''bigint''"
| "js_typeof (JArray xs) = ''object''"
| "js_typeof (JObject kvs) = ''object''"

text \<open>\<^verbatim>\<open>isString(value)\<close> of \<^verbatim>\<open>json.js\<close>.\<close>

fun isString :: "jsvalue \<Rightarrow> bool" where
  "isString (JString s) = True"
| "isString v = False"

text \<open>
  The conversion of a value to a string (ToString, and \<^verbatim>\<open>value.toString()\<close> on a value
  that is neither \<^verbatim>\<open>undefined\<close> nor \<^verbatim>\<open>null\<close>). An array joins its elements with
  commas, \<^verbatim>\<open>undefined\<close> and \<^verbatim>\<open>null\<close> elements being empty; a plain object is
  \<^verbatim>\<open>[object Object]\<close>, unless an own property \<^verbatim>\<open>toString\<close>, which is no function in
  this model, hides the inherited method: then the conversion throws a TypeError.
\<close>

fun to_string :: "jsvalue \<Rightarrow> string outcome"
  and join_elements :: "jsvalue list \<Rightarrow> string outcome" where
  "to_string JUndefined = Returns ''undefined''"
| "to_string JNull = Returns ''null''"
| "to_string (JBoolean b) = Returns (if b then ''true'' else ''false'')"
| "to_string (JNumber n) = Returns (Number_toString n)"
| "to_string (JString s) = Returns s"
| "to_string (JBigInt i) = Returns (decimal_int i)"
| "to_string (JArray xs) = join_elements xs"
| "to_string (JObject kvs) =
     (if ''toString'' \<in> set (map fst kvs)
      then Throws (Error ''TypeError'' ''Cannot convert object to primitive value'')
      else Returns ''[object Object]'')"
| "join_elements [] = Returns []"
| "join_elements (x # xs) =
     bind (if x = JUndefined \<or> x = JNull then Returns [] else to_string x)
       (\<lambda>s. if xs = [] then Returns s
            else bind (join_elements xs) (\<lambda>rest. Returns (s @ '','' @ rest)))"

section \<open>Loose equality with the sentinels of the table\<close>

text \<open>
  Whether the StringNumericLiteral \<open>body\<close>, without its sign, denotes a number that
  rounds to infinity: the literal \<^verbatim>\<open>Infinity\<close>, or a decimal literal
  \<open>digits.digits e\<plusminus>digits\<close> whose value reaches \<open>2 ^ 1024 - 2 ^ 970\<close>, the midpoint
  between the largest double and \<open>2 ^ 1024\<close>. A string outside the grammar is \<^verbatim>\<open>NaN\<close>.
\<close>

definition decimal_literal_overflows :: "string \<Rightarrow> bool" where
  "decimal_literal_overflows body =
     (let int_digits = takeWhile is_digit body;
          rest1 = dropWhile is_digit body;
          has_dot = (rest1 \<noteq> [] \<and> hd rest1 = CHR ''.'');
          frac_digits = (if has_dot then takeWhile is_digit (tl rest1) else []);
          rest2 = (if has_dot then dropWhile is_digit (tl rest1) else rest1);
          has_exp = (rest2 \<noteq> [] \<and> (hd rest2 = CHR ''e'' \<or> hd rest2 = CHR ''E''));
          exp_text = (if has_exp then tl rest2 else []);
          exp_negative = (exp_text \<noteq> [] \<and> hd exp_text = CHR ''-'');
          exp_digits = (if exp_text \<noteq> [] \<and> (hd exp_text = CHR ''+'' \<or> hd exp_text = CHR ''-'')
                        then tl exp_text else exp_text);
          well_formed = (\<not> (int_digits = [] \<and> frac_digits = []) \<and>
                         (if has_exp then exp_digits \<noteq> [] \<and> list_all is_digit exp_digits
                          else rest2 = []));
          d = radix_value 10 (int_digits @ frac_digits);
          e = (if exp_negative then - int (radix_value 10 exp_digits)
               else int (radix_value 10 exp_digits));
          x = e - int (length frac_digits);
          threshold = 2 ^ 1024 - 2 ^ 970
      in well_formed \<and> d \<noteq> 0 \<and>
         (if 0 \<le> x then 400 < x \<or> threshold \<le> d * 10 ^ nat x
          else nat (- x) < length (int_digits @ frac_digits) \<and> threshold * 10 ^ nat (- x) \<le> d))"

definition nondecimal_literal_overflows :: "string \<Rightarrow> bool" where
  "nondecimal_literal_overflows body =
     (let radix = (if prefix ''0x'' body \<or> prefix ''0X'' body then 16
                   else if prefix ''0o'' body \<or> prefix ''0O'' body then 8
                   else if prefix ''0b'' body \<or> prefix ''0B'' body then 2 else 0);
          ds = drop 2 body
      in radix \<noteq> 0 \<and> ds \<noteq> [] \<and> list_all (is_radix_digit radix) ds \<and>
         2 ^ 1024 - 2 ^ 970 \<le> radix_value radix ds)"

text \<open>Whether \<open>ToNumber\<close> of the string is the infinity of the given sign.\<close>

definition string_is_infinite :: "string \<Rightarrow> bool \<Rightarrow> bool" where
  "string_is_infinite s negative =
     (let t = trim s;
          signed = (t \<noteq> [] \<and> (hd t = CHR ''+'' \<or> hd t = CHR ''-''));
          body = (if signed then tl t else t)
      in (t \<noteq> [] \<and> hd t = CHR ''-'') = negative \<and>
         (body = ''Infinity'' \<or> decimal_literal_overflows body \<or>
          (\<not> signed \<and> nondecimal_literal_overflows body)))"

text \<open>
  \<^verbatim>\<open>x == y\<close> (IsLooselyEqual) for the right operands that occur in the table of
  \<^verbatim>\<open>json.js\<close>: \<^verbatim>\<open>null\<close>, \<^verbatim>\<open>NaN\<close> and the two infinities. \<^verbatim>\<open>null\<close> equals
  \<^verbatim>\<open>undefined\<close> and itself only. Against a Number, a string is converted to a Number, and
  an array or object first to a string; \<^verbatim>\<open>NaN\<close> equals nothing, itself included. Other
  right operands are outside the model.
\<close>

fun loose_equals :: "jsvalue \<Rightarrow> jsvalue \<Rightarrow> bool outcome" where
  "loose_equals x JNull = Returns (x = JUndefined \<or> x = JNull)"
| "loose_equals x JUndefined = Returns (x = JUndefined \<or> x = JNull)"
| "loose_equals JUndefined (JNumber n) = Returns False"
| "loose_equals JNull (JNumber n) = Returns False"
| "loose_equals (JNumber m) (JNumber n) = Returns (m = n \<and> n \<noteq> NaN)"
| "loose_equals (JBigInt b) (JNumber n) = Returns (n = Finite b)"
| "loose_equals (JBoolean b) (JNumber n) = Returns (n = Finite (if b then 1 else 0))"
| "loose_equals (JString s) (JNumber NaN) = Returns False"
| "loose_equals (JString s) (JNumber PosInfinity) = Returns (string_is_infinite s False)"
| "loose_equals (JString s) (JNumber NegInfinity) = Returns (string_is_infinite s True)"
| "loose_equals (JString s) (JNumber (Finite i)) =
     Throws (Error ''OutsideModel'' ''string == finite number'')"
| "loose_equals (JArray xs) (JNumber n) =
     bind (to_string (JArray xs)) (\<lambda>s. loose_equals (JString s) (JNumber n))"
| "loose_equals (JObject kvs) (JNumber n) =
     bind (to_string (JObject kvs)) (\<lambda>s. loose_equals (JString s) (JNumber n))"
| "loose_equals x y = Throws (Error ''OutsideModel'' ''right operand of =='')"

section \<open>\<^verbatim>\<open>convertInt\<close>\<close>

text \<open>
  \<^verbatim>\<open>BigInt(string)\<close> (StringToBigInt): white space is trimmed; the empty string is
  \<open>0n\<close>; otherwise the text is a decimal integer with an optional sign, or an unsigned
  binary, octal or hexadecimal literal; anything else throws a SyntaxError.
\<close>

definition BigInt_of_string :: "string \<Rightarrow> jsvalue outcome" where
  "BigInt_of_string input =
     (let s = trim input;
          radix = (if prefix ''0x'' s \<or> prefix ''0X'' s then 16
                   else if prefix ''0o'' s \<or> prefix ''0O'' s then 8
                   else if prefix ''0b'' s \<or> prefix ''0B'' s then 2 else 0);
          signed = (s \<noteq> [] \<and> (hd s = CHR ''+'' \<or> hd s = CHR ''-''));
          ds = (if signed then tl s else s)
      in if s = [] then Returns (JBigInt 0)
         else if radix \<noteq> 0 \<and> drop 2 s \<noteq> [] \<and> list_all (is_radix_digit radix) (drop 2 s)
           then Returns (JBigInt (int (radix_value radix (drop 2 s))))
         else if ds \<noteq> [] \<and> list_all is_digit ds
           then Returns (JBigInt ((if hd s = CHR ''-'' then - 1 else 1) * int (radix_value 10 ds)))
         else Throws (Error ''SyntaxError'' (''Cannot convert '' @ input @ '' to a BigInt'')))"

text \<open>
  \<^verbatim>\<open>convertInt(string_value)\<close>. The argument is the payload of a placeholder, whatever
  type it has: \<^verbatim>\<open>string_value.trim()\<close> throws a TypeError on anything but a string.
\<close>

fun convertInt :: "jsvalue \<Rightarrow> jsvalue outcome" where
  "convertInt (JString s) =
     (let string_value = trim s;
          number_value = parseInt string_value
      in if string_value = Number_toString number_value then Returns (JNumber number_value)
         else BigInt_of_string string_value)"
| "convertInt v = Throws (Error ''TypeError'' ''string_value.trim is not a function'')"

section \<open>The regular expressions of \<^verbatim>\<open>json.js\<close>\<close>

text \<open>
  The table uses two shapes of pattern, each one capture group around the whole match:
  a literal word, as in \<^verbatim>\<open>/(-Infinity)/\<close>, and \<^verbatim>\<open>/( -?\d{10,})/\<close>: a space, an
  optional minus sign and ten or more digits.
\<close>

datatype regex = Literal string | BigIntRun

text \<open>
  The length of the match that starts at the head of the text, if there is one. The
  quantifiers are greedy. In \<open>BigIntRun\<close> the digits stop at the first character that is
  no digit, and giving up the optional minus sign would leave the ten digits to start at
  the minus sign itself, so backtracking finds no other match.
\<close>

fun match_at :: "regex \<Rightarrow> string \<Rightarrow> nat option" where
  "match_at (Literal w) s = (if prefix w s then Some (length w) else None)"
| "match_at BigIntRun s =
     (case s of
        [] \<Rightarrow> None
      | c # rest \<Rightarrow>
          (let minus = (rest \<noteq> [] \<and> hd rest = CHR ''-'');
               ds = takeWhile is_digit (if minus then tl rest else rest)
           in if c = CHR '' '' \<and> 10 \<le> length ds
              then Some (1 + (if minus then 1 else 0) + length ds) else None))"

text \<open>\<^verbatim>\<open>RegExp.prototype.exec\<close> without the global flag: the leftmost match, as its index
  and its length.\<close>

fun regex_exec_from :: "regex \<Rightarrow> string \<Rightarrow> nat \<Rightarrow> (nat \<times> nat) option" where
  "regex_exec_from r [] i = (case match_at r [] of Some n \<Rightarrow> Some (i, n) | None \<Rightarrow> None)"
| "regex_exec_from r (c # cs) i =
     (case match_at r (c # cs) of
        Some n \<Rightarrow> Some (i, n)
      | None \<Rightarrow> regex_exec_from r cs (Suc i))"

definition regex_exec :: "regex \<Rightarrow> string \<Rightarrow> (nat \<times> nat) option" where
  "regex_exec r s = regex_exec_from r s 0"

text \<open>\<^verbatim>\<open>regex.test(string)\<close>.\<close>

definition regex_test :: "regex \<Rightarrow> string \<Rightarrow> bool" where
  "regex_test r s = (regex_exec r s \<noteq> None)"

text \<open>
  \<^verbatim>\<open>string.replace(regex, template)\<close> for a regex without the global flag: the first
  match only is replaced. The template is given as a function of the text of capture
  group 1, which in both shapes of pattern is the whole match.
\<close>

definition string_replace :: "string \<Rightarrow> regex \<Rightarrow> (string \<Rightarrow> string) \<Rightarrow> string" where
  "string_replace s r template =
     (case regex_exec r s of
        None \<Rightarrow> s
      | Some (i, n) \<Rightarrow> take i s @ template (take n (drop i s)) @ drop (i + n) s)"

section \<open>The mapping table: \<^verbatim>\<open>SaferParser.MAPPINGS\<close>\<close>

text \<open>
  A row of the table: the pattern, the value or type name it stands for, and the
  conversion function of the rows that have three entries.
\<close>

record mapper =
  pattern :: regex
  mapper_type :: jsvalue
  converter :: "(jsvalue \<Rightarrow> jsvalue outcome) option"

definition MAPPINGS :: "mapper list" where
  "MAPPINGS =
     [\<lparr>pattern = Literal ''-Infinity'', mapper_type = JNumber NegInfinity, converter = None\<rparr>,
      \<lparr>pattern = Literal ''Infinity'', mapper_type = JNumber PosInfinity, converter = None\<rparr>,
      \<lparr>pattern = Literal ''NaN'', mapper_type = JNumber NaN, converter = None\<rparr>,
      \<lparr>pattern = Literal ''null'', mapper_type = JNull, converter = None\<rparr>,
      \<lparr>pattern = BigIntRun, mapper_type = JString ''bigint'', converter = Some convertInt\<rparr>]"

text \<open>The reserved key of a placeholder object.\<close>

definition replacement_key :: string where
  \<open>replacement_key = ''fprime{replacement''\<close>

section \<open>Decoding: \<^verbatim>\<open>replaceFromString\<close>, \<^verbatim>\<open>reviver\<close> and \<^verbatim>\<open>parse\<close>\<close>

text \<open>The replacement template \<^verbatim>\<open>{"fprime{replacement": "$1"}\<close> of
  \<^verbatim>\<open>replaceFromString\<close>.\<close>

definition placeholder_text :: "string \<Rightarrow> string" where
  \<open>placeholder_text group1 = ''{"fprime{replacement": "'' @ group1 @ ''"}''\<close>

text \<open>The loop of \<^verbatim>\<open>replaceFromString\<close> over the rows of the table: each row rewrites
  the text the rows before it have left.\<close>

fun replaceFromString_loop :: "mapper list \<Rightarrow> string \<Rightarrow> string" where
  "replaceFromString_loop [] string_value = string_value"
| "replaceFromString_loop (m # ms) string_value =
     replaceFromString_loop ms (string_replace string_value (pattern m) placeholder_text)"

definition replaceFromString :: "string \<Rightarrow> string" where
  "replaceFromString string_value = replaceFromString_loop MAPPINGS string_value"

text \<open>
  \<^verbatim>\<open>value["fprime{replacement"]\<close>: reading the property throws a TypeError on
  \<^verbatim>\<open>undefined\<close> and \<^verbatim>\<open>null\<close>, finds an own property of an object, and is
  \<^verbatim>\<open>undefined\<close> on every other value.
\<close>

fun get_replacement :: "jsvalue \<Rightarrow> jsvalue outcome" where
  "get_replacement JUndefined =
     Throws (Error ''TypeError'' ''Cannot read properties of undefined'')"
| "get_replacement JNull = Throws (Error ''TypeError'' ''Cannot read properties of null'')"
| "get_replacement (JObject kvs) =
     Returns (case map_of kvs replacement_key of Some v \<Rightarrow> v | None \<Rightarrow> JUndefined)"
| "get_replacement v = Returns JUndefined"

text \<open>The loop of \<^verbatim>\<open>reviver\<close>: the first row whose pattern is found in the payload
  decides; \<^verbatim>\<open>test\<close> converts the payload to a string.\<close>

fun reviver_loop :: "mapper list \<Rightarrow> jsvalue \<Rightarrow> jsvalue \<Rightarrow> jsvalue outcome" where
  "reviver_loop [] string_value v = Returns v"
| "reviver_loop (m # ms) string_value v =
     bind (to_string string_value)
       (\<lambda>text. if regex_test (pattern m) text
              then (case converter m of
                      Some convert \<Rightarrow> convert string_value
                    | None \<Rightarrow> Returns (mapper_type m))
              else reviver_loop ms string_value v)"

definition reviver :: "string \<Rightarrow> jsvalue \<Rightarrow> jsvalue outcome" where
  "reviver key v =
     bind (get_replacement v)
       (\<lambda>string_value. if js_typeof string_value = ''undefined'' then Returns v
                       else reviver_loop MAPPINGS string_value v)"

text \<open>
  \<^verbatim>\<open>message.match(/line (\d+) column (\d+)/)\<close>: the two capture groups of the leftmost
  match. Both runs of digits are greedy, and the first is followed by a space, so each
  takes the whole run.
\<close>

definition match_line_column_at :: "string \<Rightarrow> (string \<times> string) option" where
  "match_line_column_at s =
     (if prefix ''line '' s then
        (let s1 = drop 5 s;
             g1 = takeWhile is_digit s1;
             s2 = dropWhile is_digit s1;
             g2 = takeWhile is_digit (drop 8 s2)
         in if g1 \<noteq> [] \<and> prefix '' column '' s2 \<and> g2 \<noteq> [] then Some (g1, g2) else None)
      else None)"

fun match_line_column :: "string \<Rightarrow> (string \<times> string) option" where
  "match_line_column [] = None"
| "match_line_column (c # cs) =
     (case match_line_column_at (c # cs) of
        Some g \<Rightarrow> Some g
      | None \<Rightarrow> match_line_column cs)"

text \<open>\<^verbatim>\<open>string.split("\n")\<close>.\<close>

fun split_lines :: "string \<Rightarrow> string list" where
  "split_lines [] = [[]]"
| "split_lines (c # cs) =
     (if c = CHR 0x0A then [] # split_lines cs
      else (case split_lines cs of l # ls \<Rightarrow> (c # l) # ls | [] \<Rightarrow> [[c]]))"

text \<open>\<^verbatim>\<open>array[n]\<close> for a Number \<open>n\<close>: \<open>None\<close> is \<^verbatim>\<open>undefined\<close>.\<close>

fun array_get :: "'a list \<Rightarrow> jsnum \<Rightarrow> 'a option" where
  "array_get xs (Finite i) = (if 0 \<le> i \<and> i < int (length xs) then Some (xs ! nat i) else None)"
| "array_get xs n = None"

text \<open>\<^verbatim>\<open>substring\<close> with Number arguments: \<^verbatim>\<open>NaN\<close> counts as 0 and the infinities are
  clamped like any other number.\<close>

fun number_to_index :: "string \<Rightarrow> jsnum \<Rightarrow> int" where
  "number_to_index s (Finite i) = i"
| "number_to_index s PosInfinity = int (length s)"
| "number_to_index s n = 0"

definition substring_numbers :: "string \<Rightarrow> jsnum \<Rightarrow> jsnum \<Rightarrow> string" where
  "substring_numbers s a b = substring s (number_to_index s a) (number_to_index s b)"

type_synonym callback = "string \<Rightarrow> jsvalue \<Rightarrow> jsvalue outcome"

text \<open>
  \<^verbatim>\<open>SaferParser.language_parse\<close> holds the host's \<^verbatim>\<open>JSON.parse\<close>; it is an argument of
  the model, as it is a variable of the class. \<open>full_reviver\<close> is the composite reviver of
  \<^verbatim>\<open>parse\<close>; a missing \<open>reviver\<close> stands for the identity.
\<close>

type_synonym language_parse = "string \<Rightarrow> callback \<Rightarrow> jsvalue outcome"

definition full_reviver :: "callback option \<Rightarrow> callback" where
  "full_reviver input_reviver key v =
     bind (reviver key v)
       (\<lambda>revived. case input_reviver of None \<Rightarrow> Returns revived | Some f \<Rightarrow> f key revived)"

text \<open>The \<^verbatim>\<open>catch\<close> block of \<^verbatim>\<open>parse\<close>.\<close>

definition parse_catch :: "string \<Rightarrow> exn \<Rightarrow> jsvalue outcome" where
  "parse_catch converted_data e =
     (let message = error_toString e in
      case match_line_column message of
        Some (group1, group2) \<Rightarrow>
          (case array_get (split_lines converted_data) (number_add (parseInt group1) (- 1)) of
             None \<Rightarrow> Throws (Error ''TypeError'' ''Cannot read properties of undefined'')
           | Some line \<Rightarrow>
               (let snippet = substring_numbers line (number_add (parseInt group2) (- 6))
                                (number_add (parseInt group2) 5)
                in Throws (Error ''SyntaxError'' (message @ ''. Offending snippet: '' @ snippet))))
      | None \<Rightarrow> Throws e)"

definition parse :: "language_parse \<Rightarrow> string \<Rightarrow> callback option \<Rightarrow> jsvalue outcome" where
  "parse language_parse json_string input_reviver =
     (let converted_data = processUnquoted json_string replaceFromString in
      case language_parse converted_data (full_reviver input_reviver) of
        Returns language_parsed \<Rightarrow> Returns language_parsed
      | Throws e \<Rightarrow> parse_catch converted_data e
      | Diverges \<Rightarrow> Diverges)"

section \<open>Encoding: \<^verbatim>\<open>replaceFromObject\<close>, \<^verbatim>\<open>postReplacer\<close> and \<^verbatim>\<open>stringify\<close>\<close>

text \<open>The test of \<^verbatim>\<open>replaceFromObject\<close> on one row:
  \<^verbatim>\<open>(!mapper_is_string && value == mapper_type) || (mapper_is_string && typeof value == mapper_type)\<close>.\<close>

definition mapper_matches :: "mapper \<Rightarrow> jsvalue \<Rightarrow> bool outcome" where
  "mapper_matches m v =
     (let mapper_is_string = isString (mapper_type m) in
      if mapper_is_string then Returns (JString (js_typeof v) = mapper_type m)
      else loose_equals v (mapper_type m))"

text \<open>The placeholder object \<^verbatim>\<open>{"fprime{replacement": (value == null) ? "null" : value.toString()}\<close>.\<close>

definition placeholder_object :: "jsvalue \<Rightarrow> jsvalue outcome" where
  "placeholder_object v =
     bind (loose_equals v JNull)
       (\<lambda>is_null. bind (if is_null then Returns ''null'' else to_string v)
          (\<lambda>payload. Returns (JObject [(replacement_key, JString payload)])))"

fun replaceFromObject_loop :: "mapper list \<Rightarrow> jsvalue \<Rightarrow> jsvalue outcome" where
  "replaceFromObject_loop [] v = Returns v"
| "replaceFromObject_loop (m # ms) v =
     bind (mapper_matches m v)
       (\<lambda>matched. if matched then placeholder_object v else replaceFromObject_loop ms v)"

definition replaceFromObject :: "string \<Rightarrow> jsvalue \<Rightarrow> jsvalue outcome" where
  "replaceFromObject key v = replaceFromObject_loop MAPPINGS v"

text \<open>
  \<^verbatim>\<open>/\{\s*"fprime\{replacement"\s*:\s*"([^"]+)"\s*\}/sg\<close> at the head of a text: the
  length of the match and capture group 1. Every greedy run is followed by a character
  it cannot contain, so there is nothing to backtrack to.
\<close>

definition match_placeholder_at :: "string \<Rightarrow> (nat \<times> string) option" where
  \<open>match_placeholder_at s =
     (case s of
        [] \<Rightarrow> None
      | c # r1 \<Rightarrow>
          (let r2 = dropWhile is_whitespace r1;
               r3 = dropWhile is_whitespace (drop 20 r2);
               r4 = dropWhile is_whitespace (drop 1 r3);
               group1 = takeWhile (\<lambda>x. x \<noteq> CHR 0x22) (drop 1 r4);
               r5 = drop (1 + length group1) r4;
               r6 = dropWhile is_whitespace (drop 1 r5)
           in if c = CHR ''{'' \<and> prefix ''"fprime{replacement"'' r2 \<and> prefix '':'' r3 \<and>
                 prefix ''"'' r4 \<and> group1 \<noteq> [] \<and> prefix ''"'' r5 \<and> prefix ''}'' r6
              then Some (length s - length r6 + 1, group1) else None))\<close>

text \<open>\<^verbatim>\<open>replace\<close> with the global flag and the template \<^verbatim>\<open>$1\<close>: the first argument
  counts the characters of the current match that are still to be skipped.\<close>

fun replace_placeholders :: "nat \<Rightarrow> string \<Rightarrow> string" where
  "replace_placeholders skip [] = []"
| "replace_placeholders skip (c # cs) =
     (if 0 < skip then replace_placeholders (skip - 1) cs
      else (case match_placeholder_at (c # cs) of
              Some (n, group1) \<Rightarrow> group1 @ replace_placeholders (n - 1) cs
            | None \<Rightarrow> c # replace_placeholders 0 cs))"

text \<open>\<^verbatim>\<open>postReplacer(json_string)\<close>; the host's \<^verbatim>\<open>stringify\<close> may have answered
  \<^verbatim>\<open>undefined\<close> (\<open>None\<close>), which has no method \<^verbatim>\<open>replace\<close>.\<close>

fun postReplacer :: "string option \<Rightarrow> string outcome" where
  "postReplacer None = Throws (Error ''TypeError'' ''Cannot read properties of undefined'')"
| "postReplacer (Some json_string) = Returns (replace_placeholders 0 json_string)"

text \<open>The \<open>replacer\<close> argument of \<^verbatim>\<open>stringify\<close>: an array, a function, or anything else.\<close>

datatype replacer = NoReplacer | ArrayReplacer "jsvalue list" | FunctionReplacer callback

text \<open>The composite replacer of \<^verbatim>\<open>stringify\<close>; \<open>None\<close> as a list index is -1.\<close>

fun full_replacer :: "replacer \<Rightarrow> callback" where
  "full_replacer (ArrayReplacer keys) key v =
     (if JString key \<notin> set keys then Returns JUndefined else replaceFromObject key v)"
| "full_replacer (FunctionReplacer f) key v = bind (f key v) (\<lambda>v'. replaceFromObject key v')"
| "full_replacer NoReplacer key v = replaceFromObject key v"

type_synonym language_stringify = "jsvalue \<Rightarrow> callback \<Rightarrow> jsvalue \<Rightarrow> string option outcome"

definition stringify ::
  "language_stringify \<Rightarrow> jsvalue \<Rightarrow> replacer \<Rightarrow> jsvalue \<Rightarrow> string outcome" where
  "stringify language_stringify data replacer space =
     bind (language_stringify data (full_replacer replacer) space) postReplacer"

section \<open>The host's \<^verbatim>\<open>JSON.parse\<close>\<close>

text \<open>
  A model of ECMAScript's \<^verbatim>\<open>JSON.parse(text, reviver)\<close>, for the concrete runs below:
  a recursive-descent parser of the JSON grammar, then the walk that calls the reviver on
  every property, children first. Two things are outside the model and reported as
  \<open>Unmodelled\<close>: number literals with a fraction or an exponent, and \<^verbatim>\<open>\u\<close> escapes
  above \<^verbatim>\<open>\u00ff\<close>. The fuel of the parser is the length of the text, which bounds the
  number of nested calls.
\<close>

datatype parse_result =
    Parsed jsvalue string
  | SyntaxErrorAt string
  | Unmodelled
  | OutOfFuel

definition json_whitespace :: "char \<Rightarrow> bool" where
  "json_whitespace c = (c \<in> set [CHR 0x09, CHR 0x0A, CHR 0x0D, CHR 0x20])"

definition skip_ws :: "string \<Rightarrow> string" where
  "skip_ws s = dropWhile json_whitespace s"

text \<open>Property order of an object: array indices first, in ascending order, then the
  other keys in the order of their creation. Setting an existing key keeps its place.\<close>

definition is_array_index :: "string \<Rightarrow> bool" where
  "is_array_index k =
     (k \<noteq> [] \<and> list_all is_digit k \<and> (k = ''0'' \<or> hd k \<noteq> CHR ''0'') \<and>
      radix_value 10 k < 2 ^ 32 - 1)"

fun insert_index :: "string \<Rightarrow> jsvalue \<Rightarrow> (string \<times> jsvalue) list \<Rightarrow> (string \<times> jsvalue) list" where
  "insert_index k v [] = [(k, v)]"
| "insert_index k v ((k', v') # kvs) =
     (if is_array_index k' \<and> radix_value 10 k' < radix_value 10 k
      then (k', v') # insert_index k v kvs
      else (k, v) # (k', v') # kvs)"

definition object_set :: "(string \<times> jsvalue) list \<Rightarrow> string \<Rightarrow> jsvalue \<Rightarrow> (string \<times> jsvalue) list" where
  "object_set kvs k v =
     (if k \<in> set (map fst kvs) then map (\<lambda>(k', v'). if k' = k then (k', v) else (k', v')) kvs
      else if is_array_index k then insert_index k v kvs
      else kvs @ [(k, v)])"

text \<open>The characters of a string literal after its opening quote: the decoded string and
  the text after the closing quote.\<close>

datatype string_result = StringOk string string | StringError string | StringUnmodelled

fun json_string_body :: "string \<Rightarrow> string \<Rightarrow> string_result" where
  "json_string_body [] acc = StringError []"
| "json_string_body (c # rest) acc =
     (if c = CHR 0x22 then StringOk acc rest
      else if c = CHR 0x5C then
        (case rest of
           [] \<Rightarrow> StringError []
         | e # rest' \<Rightarrow>
             if e = CHR 0x22 \<or> e = CHR 0x5C \<or> e = CHR ''/'' then json_string_body rest' (acc @ [e])
             else if e = CHR ''b'' then json_string_body rest' (acc @ [CHR 0x08])
             else if e = CHR ''f'' then json_string_body rest' (acc @ [CHR 0x0C])
             else if e = CHR ''n'' then json_string_body rest' (acc @ [CHR 0x0A])
             else if e = CHR ''r'' then json_string_body rest' (acc @ [CHR 0x0D])
             else if e = CHR ''t'' then json_string_body rest' (acc @ [CHR 0x09])
             else if e = CHR ''u'' then
               (if length (take 4 rest') = 4 \<and> list_all (is_radix_digit 16) (take 4 rest')
                then (if radix_value 16 (take 4 rest') < 256
                      then json_string_body (drop 4 rest')
                             (acc @ [char_of (radix_value 16 (take 4 rest'))])
                      else StringUnmodelled)
                else StringError rest')
             else StringError (e # rest'))
      else if (of_char c :: nat) < 32 then StringError (c # rest)
      else json_string_body rest (acc @ [c]))"

text \<open>A number literal: \<open>-? (0 | [1-9][0-9]*)\<close>; a fraction or an exponent after it is
  outside the model.\<close>

definition json_number :: "string \<Rightarrow> parse_result" where
  "json_number s =
     (let negative = (s \<noteq> [] \<and> hd s = CHR ''-'');
          s1 = (if negative then tl s else s);
          ds = (if s1 \<noteq> [] \<and> hd s1 = CHR ''0'' then ''0'' else takeWhile is_digit s1);
          rest = drop (length ds) s1
      in if ds = [] then SyntaxErrorAt s1
         else if rest \<noteq> [] \<and> hd rest \<in> set ''.eE'' then Unmodelled
         else Parsed (JNumber (round_to_double
                (if negative then - int (radix_value 10 ds) else int (radix_value 10 ds)))) rest)"

function (sequential) parse_value :: "nat \<Rightarrow> string \<Rightarrow> parse_result"
  and parse_elements :: "nat \<Rightarrow> string \<Rightarrow> jsvalue list \<Rightarrow> parse_result"
  and parse_members :: "nat \<Rightarrow> string \<Rightarrow> (string \<times> jsvalue) list \<Rightarrow> parse_result" where
  "parse_value 0 s = OutOfFuel"
| "parse_value (Suc n) s =
     (case skip_ws s of
        [] \<Rightarrow> SyntaxErrorAt []
      | c # rest \<Rightarrow>
          if c = CHR ''['' then
            (case skip_ws rest of
               [] \<Rightarrow> SyntaxErrorAt []
             | d # rest' \<Rightarrow> if d = CHR '']'' then Parsed (JArray []) rest'
                            else parse_elements n (d # rest') [])
          else if c = CHR ''{'' then
            (case skip_ws rest of
               [] \<Rightarrow> SyntaxErrorAt []
             | d # rest' \<Rightarrow> if d = CHR ''}'' then Parsed (JObject []) rest'
                            else parse_members n (d # rest') [])
          else if c = CHR 0x22 then
            (case json_string_body rest [] of
               StringOk str rest' \<Rightarrow> Parsed (JString str) rest'
             | StringError at \<Rightarrow> SyntaxErrorAt at
             | StringUnmodelled \<Rightarrow> Unmodelled)
          else if prefix ''null'' (c # rest) then Parsed JNull (drop 4 (c # rest))
          else if prefix ''true'' (c # rest) then Parsed (JBoolean True) (drop 4 (c # rest))
          else if prefix ''false'' (c # rest) then Parsed (JBoolean False) (drop 5 (c # rest))
          else if c = CHR ''-'' \<or> is_digit c then json_number (c # rest)
          else SyntaxErrorAt (c # rest))"
| "parse_elements 0 s acc = OutOfFuel"
| "parse_elements (Suc n) s acc =
     (case parse_value n s of
        Parsed v rest \<Rightarrow>
          (case skip_ws rest of
             [] \<Rightarrow> SyntaxErrorAt []
           | d # rest' \<Rightarrow>
               if d = CHR '','' then parse_elements n rest' (acc @ [v])
               else if d = CHR '']'' then Parsed (JArray (acc @ [v])) rest'
               else SyntaxErrorAt (d # rest'))
      | failure \<Rightarrow> failure)"
| "parse_members 0 s acc = OutOfFuel"
| "parse_members (Suc n) s acc =
     (case skip_ws s of
        [] \<Rightarrow> SyntaxErrorAt []
      | q # after_quote \<Rightarrow>
          if q \<noteq> CHR 0x22 then SyntaxErrorAt (q # after_quote)
          else
            (case json_string_body after_quote [] of
               StringError at \<Rightarrow> SyntaxErrorAt at
             | StringUnmodelled \<Rightarrow> Unmodelled
             | StringOk k after_key \<Rightarrow>
                 (case skip_ws after_key of
                    [] \<Rightarrow> SyntaxErrorAt []
                  | colon # after_colon \<Rightarrow>
                      if colon \<noteq> CHR '':'' then SyntaxErrorAt (colon # after_colon)
                      else
                        (case parse_value n after_colon of
                           Parsed v rest \<Rightarrow>
                             (case skip_ws rest of
                                [] \<Rightarrow> SyntaxErrorAt []
                              | d # rest' \<Rightarrow>
                                  if d = CHR '','' then parse_members n rest' (object_set acc k v)
                                  else if d = CHR ''}'' then Parsed (JObject (object_set acc k v)) rest'
                                  else SyntaxErrorAt (d # rest'))
                         | failure \<Rightarrow> failure))))"
  by pat_completeness auto
termination
  by (relation "measure (\<lambda>x. case x of
           Inl (n, s) \<Rightarrow> n
         | Inr (Inl (n, s, acc)) \<Rightarrow> n
         | Inr (Inr (n, s, acc)) \<Rightarrow> n)") auto

text \<open>
  The SyntaxError of the host for an error at the text \<open>rest\<close> left to read. Its message
  has the form of SpiderMonkey's, with the 1-based line and column of the offending
  character; the wording of the reason is not modelled. (V8 words its messages
  differently and, depending on the version, gives no line and column.)
\<close>

definition json_syntax_error :: "string \<Rightarrow> string \<Rightarrow> exn" where
  "json_syntax_error text rest =
     (let consumed = take (length text - length rest) text;
          line = Suc (length (filter (\<lambda>c. c = CHR 0x0A) consumed));
          column = Suc (length (takeWhile (\<lambda>c. c \<noteq> CHR 0x0A) (rev consumed)))
      in Error ''SyntaxError''
           ((if rest = [] then ''JSON.parse: unexpected end of data at line ''
             else ''JSON.parse: unexpected character at line '') @
            decimal line @ '' column '' @ decimal column @ '' of the JSON data''))"

text \<open>
  InternalizeJSONProperty: the reviver is called on the elements of an array and on the
  properties of an object before it is called on the array or object itself. A property
  revived to \<^verbatim>\<open>undefined\<close> is deleted; a deleted array element leaves a hole, which
  reads as \<^verbatim>\<open>undefined\<close>.
\<close>

fun internalize :: "callback \<Rightarrow> string \<Rightarrow> jsvalue \<Rightarrow> jsvalue outcome"
  and internalize_elements :: "callback \<Rightarrow> nat \<Rightarrow> jsvalue list \<Rightarrow> jsvalue list outcome"
  and internalize_properties ::
    "callback \<Rightarrow> (string \<times> jsvalue) list \<Rightarrow> (string \<times> jsvalue) list outcome" where
  "internalize r name (JArray xs) =
     bind (internalize_elements r 0 xs) (\<lambda>ys. r name (JArray ys))"
| "internalize r name (JObject kvs) =
     bind (internalize_properties r kvs) (\<lambda>kvs'. r name (JObject kvs'))"
| "internalize r name JUndefined = r name JUndefined"
| "internalize r name JNull = r name JNull"
| "internalize r name (JBoolean b) = r name (JBoolean b)"
| "internalize r name (JNumber n) = r name (JNumber n)"
| "internalize r name (JString s) = r name (JString s)"
| "internalize r name (JBigInt i) = r name (JBigInt i)"
| "internalize_elements r i [] = Returns []"
| "internalize_elements r i (x # xs) =
     bind (internalize r (decimal i) x)
       (\<lambda>y. bind (internalize_elements r (Suc i) xs) (\<lambda>ys. Returns (y # ys)))"
| "internalize_properties r [] = Returns []"
| "internalize_properties r (kv # kvs) =
     bind (internalize r (fst kv) (snd kv))
       (\<lambda>v'. bind (internalize_properties r kvs)
          (\<lambda>kvs'. Returns (if v' = JUndefined then kvs' else (fst kv, v') # kvs')))"

definition JSON_parse :: "string \<Rightarrow> callback \<Rightarrow> jsvalue outcome" where
  "JSON_parse text r =
     (case parse_value (Suc (length text)) text of
        Parsed v rest \<Rightarrow>
          (if skip_ws rest = [] then internalize r [] v
           else Throws (json_syntax_error text (skip_ws rest)))
      | SyntaxErrorAt rest \<Rightarrow> Throws (json_syntax_error text rest)
      | Unmodelled \<Rightarrow> Throws (Error ''OutsideModel'' ''JSON text outside the model'')
      | OutOfFuel \<Rightarrow> Throws (Error ''OutsideModel'' ''fuel of the parser''))"

section \<open>The host's \<^verbatim>\<open>JSON.stringify\<close>\<close>

text \<open>QuoteJSONString.\<close>

definition hex_digit :: "nat \<Rightarrow> char" where
  "hex_digit d = ''0123456789abcdef'' ! d"

fun quote_char :: "char \<Rightarrow> string" where
  "quote_char c =
     (if c = CHR 0x22 then [CHR 0x5C, CHR 0x22]
      else if c = CHR 0x5C then [CHR 0x5C, CHR 0x5C]
      else if c = CHR 0x08 then [CHR 0x5C, CHR ''b'']
      else if c = CHR 0x0C then [CHR 0x5C, CHR ''f'']
      else if c = CHR 0x0A then [CHR 0x5C, CHR ''n'']
      else if c = CHR 0x0D then [CHR 0x5C, CHR ''r'']
      else if c = CHR 0x09 then [CHR 0x5C, CHR ''t'']
      else if (of_char c :: nat) < 32
        then [CHR 0x5C, CHR ''u'', CHR ''0'', CHR ''0'',
              hex_digit (of_char c div 16), hex_digit (of_char c mod 16)]
      else [c])"

definition QuoteJSONString :: "string \<Rightarrow> string" where
  "QuoteJSONString s = [CHR 0x22] @ concat (map quote_char s) @ [CHR 0x22]"

text \<open>\<open>join\<close> of the parts of an array or object with a separator.\<close>

fun join :: "string \<Rightarrow> string list \<Rightarrow> string" where
  "join sep [] = []"
| "join sep [x] = x"
| "join sep (x # y # ys) = x @ sep @ join sep (y # ys)"

definition wrap_parts :: "string \<Rightarrow> string \<Rightarrow> string \<Rightarrow> string \<Rightarrow> string list \<Rightarrow> string" where
  "wrap_parts left right gap stepback parts =
     (if parts = [] then left @ right
      else if gap = [] then left @ join '','' parts @ right
      else left @ [CHR 0x0A] @ (stepback @ gap) @
           join ('','' @ [CHR 0x0A] @ (stepback @ gap)) parts @ [CHR 0x0A] @ stepback @ right)"

text \<open>
  SerializeJSONProperty with a replacer function, SerializeJSONArray and
  SerializeJSONObject. The values of the model have no \<^verbatim>\<open>toJSON\<close> method. The replacer
  may answer with a new object whose properties are serialized in turn, so nothing bounds
  the depth of the recursion: the first argument is the fuel, the number of nested calls
  allowed, and \<open>Diverges\<close> is the answer when it runs out.
\<close>

function (sequential) serialize_property ::
    "nat \<Rightarrow> callback \<Rightarrow> string \<Rightarrow> string \<Rightarrow> string \<Rightarrow> jsvalue \<Rightarrow> string option outcome"
  and serialize_elements ::
    "nat \<Rightarrow> callback \<Rightarrow> string \<Rightarrow> string \<Rightarrow> nat \<Rightarrow> jsvalue list \<Rightarrow> string list outcome"
  and serialize_members ::
    "nat \<Rightarrow> callback \<Rightarrow> string \<Rightarrow> string \<Rightarrow> (string \<times> jsvalue) list \<Rightarrow> string list outcome" where
  "serialize_property 0 rep gap indent key v = Diverges"
| "serialize_property (Suc n) rep gap indent key v =
     bind (rep key v)
       (\<lambda>v'. case v' of
           JUndefined \<Rightarrow> Returns None
         | JNull \<Rightarrow> Returns (Some ''null'')
         | JBoolean b \<Rightarrow> Returns (Some (if b then ''true'' else ''false''))
         | JNumber x \<Rightarrow>
             Returns (Some (case x of Finite i \<Rightarrow> Number_toString x | _ \<Rightarrow> ''null''))
         | JString s \<Rightarrow> Returns (Some (QuoteJSONString s))
         | JBigInt i \<Rightarrow> Throws (Error ''TypeError'' ''Do not know how to serialize a BigInt'')
         | JArray xs \<Rightarrow>
             bind (serialize_elements n rep gap (indent @ gap) 0 xs)
               (\<lambda>parts. Returns (Some (wrap_parts ''['' '']'' gap indent parts)))
         | JObject kvs \<Rightarrow>
             bind (serialize_members n rep gap (indent @ gap) kvs)
               (\<lambda>parts. Returns (Some (wrap_parts ''{'' ''}'' gap indent parts))))"
| "serialize_elements n rep gap indent i [] = Returns []"
| "serialize_elements n rep gap indent i (x # xs) =
     bind (serialize_property n rep gap indent (decimal i) x)
       (\<lambda>strP. bind (serialize_elements n rep gap indent (Suc i) xs)
          (\<lambda>parts. Returns ((case strP of None \<Rightarrow> ''null'' | Some str \<Rightarrow> str) # parts)))"
| "serialize_members n rep gap indent [] = Returns []"
| "serialize_members n rep gap indent (kv # kvs) =
     bind (serialize_property n rep gap indent (fst kv) (snd kv))
       (\<lambda>strP. bind (serialize_members n rep gap indent kvs)
          (\<lambda>parts. Returns
             (case strP of
                None \<Rightarrow> parts
              | Some str \<Rightarrow>
                  (QuoteJSONString (fst kv) @ '':'' @ (if gap = [] then [] else '' '') @ str)
                  # parts)))"
  by pat_completeness auto
termination
  by (relation "inv_image (less_than <*lex*> less_than)
        (\<lambda>x. case x of
           Inl (n, rep, gap, indent, key, v) \<Rightarrow> (n, 0)
         | Inr (Inl (n, rep, gap, indent, i, xs)) \<Rightarrow> (n, Suc (length xs))
         | Inr (Inr (n, rep, gap, indent, kvs)) \<Rightarrow> (n, Suc (length kvs)))") auto

text \<open>The gap of the \<open>space\<close> argument: up to ten spaces for a number, up to ten
  characters of a string, nothing for any other value.\<close>

fun gap_of :: "jsvalue \<Rightarrow> string" where
  "gap_of (JNumber (Finite i)) = replicate (nat (min 10 i)) (CHR '' '')"
| "gap_of (JNumber PosInfinity) = replicate 10 (CHR '' '')"
| "gap_of (JString s) = take 10 s"
| "gap_of v = []"

text \<open>\<^verbatim>\<open>JSON.stringify(data, replacer, space)\<close> with a replacer function, for a given
  fuel.\<close>

definition JSON_stringify ::
  "nat \<Rightarrow> jsvalue \<Rightarrow> callback \<Rightarrow> jsvalue \<Rightarrow> string option outcome" where
  "JSON_stringify fuel data rep space = serialize_property fuel rep (gap_of space) [] [] data"

section \<open>Texts of the examples\<close>

text \<open>The JSON text \<^verbatim>\<open>"a\"null"\<close>: one string, with an escaped quote in it.\<close>

definition escaped_quote_text :: string where
  \<open>escaped_quote_text = ''"a'' @ [CHR 0x5C] @ ''"null"''\<close>

text \<open>A text of two lines with an error on the second, and what the rewriter makes of it.\<close>

definition two_line_text :: string where
  \<open>two_line_text = ''{"a": 1,'' @ [CHR 0x0A] @ '' "b": [1, 2,, Infinity]}''\<close>

definition two_line_rewritten :: string where
  \<open>two_line_rewritten =
     ''{"a": 1,'' @ [CHR 0x0A] @ '' "b": [1, 2,, {"fprime{replacement": "Infinity"}]}''\<close>

section \<open>The scanner as a walk over the characters\<close>

text \<open>
  An equivalent of the loop of \<^verbatim>\<open>processUnquoted\<close> that reads the text one character
  at a time: \<open>cur\<close> is the segment read so far. It is proved equal to the loop
  below (\<open>processUnquoted_scan\<close>) and gives the segments of a concrete text quickly.
\<close>

fun apply_state :: "(string \<Rightarrow> string) \<Rightarrow> STATES \<Rightarrow> string \<Rightarrow> string" where
  "apply_state f QUOTED s = s"
| "apply_state f UNQUOTED s = f s"

fun scan :: "(string \<Rightarrow> string) \<Rightarrow> STATES \<Rightarrow> string \<Rightarrow> string \<Rightarrow> string" where
  "scan f st cur [] = (if cur = [] then [] else apply_state f st cur)"
| "scan f st cur (c # cs) =
     (if c = CHR 0x22 then apply_state f st (cur @ [c]) @ scan f (if st = QUOTED then UNQUOTED else QUOTED) [] cs
      else scan f st (cur @ [c]) cs)"

section \<open>Properties of the scanner\<close>

lemma processUnquoted_loop_identity:
  "processUnquoted_loop (\<lambda>s. s) state unprocessed transformed_data =
     transformed_data @ unprocessed"
proof (induction "\<lambda>s::string. s" state unprocessed transformed_data
    rule: processUnquoted_loop.induct)
  case (1 state unprocessed transformed_data)
  show ?case
  proof (cases "length unprocessed > 0")
    case False
    then show ?thesis by (simp add: processUnquoted_loop.simps)
  next
    case True
    define next_quote where "next_quote = indexOf unprocessed [CHR 0x22]"
    define sec where "sec = (if next_quote \<noteq> - 1
      then substring unprocessed 0 (next_quote + 1) else substring_from unprocessed 0)"
    define rest where "rest = substring_from unprocessed (int (length sec))"
    have split: "sec @ rest = unprocessed"
      unfolding rest_def
      by (rule section_split [where c = "CHR 0x22"]) (simp add: sec_def next_quote_def)
    have "processUnquoted_loop (\<lambda>s. s) state unprocessed transformed_data =
        processUnquoted_loop (\<lambda>s. s) (if state = QUOTED then UNQUOTED else QUOTED)
          rest (transformed_data @ sec)"
      using True
      by (subst processUnquoted_loop.simps)
        (simp add: Let_def next_quote_def sec_def rest_def)
    also have "\<dots> = (transformed_data @ sec) @ rest"
      using True "1.hyps" [OF _ next_quote_def sec_def rest_def refl refl]
      by simp
    finally show ?thesis using split by simp
  qed
qed

text \<open>
  C3 (segment identity). Every turn of the scanner's loop cuts one segment off the front
  of the unprocessed text and appends it to the output; with the identity as the rewrite
  function nothing is changed on the way, so the concatenation of all segments, in order,
  is the input, whatever the number of double quotes in it.
\<close>

theorem processUnquoted_identity:
  "processUnquoted json_string (\<lambda>section. section) = json_string"
  by (simp add: processUnquoted_def processUnquoted_loop_identity)


subsection \<open>The loop and the walk agree\<close>

lemma indexOf_from_char:
  "indexOf_from s [c] i = (if c \<in> set s then int i + int (length (takeWhile (\<lambda>x. x \<noteq> c) s)) else - 1)"
  by (induction s arbitrary: i) auto

lemma indexOf_char:
  "indexOf s [c] = (if c \<in> set s then int (length (takeWhile (\<lambda>x. x \<noteq> c) s)) else - 1)"
  by (simp add: indexOf_def indexOf_from_char)

lemma scan_no_quote:
  "CHR 0x22 \<notin> set s \<Longrightarrow> scan f st cur s = (if cur @ s = [] then [] else apply_state f st (cur @ s))"
  by (induction s arbitrary: cur) auto

lemma scan_quote:
  "CHR 0x22 \<in> set s \<Longrightarrow> scan f st cur s =
     apply_state f st (cur @ takeWhile (\<lambda>x. x \<noteq> CHR 0x22) s @ [CHR 0x22]) @
     scan f (if st = QUOTED then UNQUOTED else QUOTED) [] (tl (dropWhile (\<lambda>x. x \<noteq> CHR 0x22) s))"
  by (induction s arbitrary: cur) auto

lemma take_Suc_takeWhile:
  "c \<in> set s \<Longrightarrow> take (Suc (length (takeWhile (\<lambda>x. x \<noteq> c) s))) s = takeWhile (\<lambda>x. x \<noteq> c) s @ [c]"
  by (induction s) auto

lemma drop_Suc_takeWhile:
  "c \<in> set s \<Longrightarrow> drop (Suc (length (takeWhile (\<lambda>x. x \<noteq> c) s))) s = tl (dropWhile (\<lambda>x. x \<noteq> c) s)"
  by (induction s) auto

lemma processUnquoted_loop_scan:
  "processUnquoted_loop f st unprocessed tr = tr @ scan f st [] unprocessed"
proof (induction f st unprocessed tr rule: processUnquoted_loop.induct)
  case (1 f st unprocessed tr)
  show ?case
  proof (cases "unprocessed = []")
    case True
    then show ?thesis by (simp add: processUnquoted_loop.simps)
  next
    case False
    note nonempty = this
    show ?thesis
    proof (cases "CHR 0x22 \<in> set unprocessed")
      case False
      then have idx: "indexOf unprocessed [CHR 0x22] = - 1" by (simp add: indexOf_char)
      have "processUnquoted_loop f st unprocessed tr =
          processUnquoted_loop f (if st = QUOTED then UNQUOTED else QUOTED) [] (tr @ apply_state f st unprocessed)"
        using nonempty
        by (subst processUnquoted_loop.simps) (cases st; simp add: idx Let_def substring_from_0 substring_from_nat)
      also have "\<dots> = tr @ apply_state f st unprocessed"
        by (simp add: processUnquoted_loop.simps)
      finally show ?thesis using False nonempty by (simp add: scan_no_quote)
    next
      case True
      define n where "n = length (takeWhile (\<lambda>x. x \<noteq> CHR 0x22) unprocessed)"
      define sec where "sec = takeWhile (\<lambda>x. x \<noteq> CHR 0x22) unprocessed @ [CHR 0x22]"
      define rest where "rest = tl (dropWhile (\<lambda>x. x \<noteq> CHR 0x22) unprocessed)"
      have idx: "indexOf unprocessed [CHR 0x22] = int n" using True by (simp add: indexOf_char n_def)
      have sec: "substring unprocessed 0 (int n + 1) = sec"
        using True by (simp add: substring_0 nat_add_distrib sec_def n_def take_Suc_takeWhile)
      have len: "length sec = Suc n" by (simp add: sec_def n_def)
      have rest: "substring_from unprocessed (int (length sec)) = rest"
        unfolding len substring_from_nat using True by (simp add: rest_def n_def drop_Suc_takeWhile)
      have step: "processUnquoted_loop f st unprocessed tr =
          processUnquoted_loop f (if st = QUOTED then UNQUOTED else QUOTED) rest (tr @ apply_state f st sec)"
        using nonempty
        by (subst processUnquoted_loop.simps) (cases st; simp add: idx Let_def sec rest)
      have "processUnquoted_loop f (if st = QUOTED then UNQUOTED else QUOTED) rest (tr @ apply_state f st sec) =
          (tr @ apply_state f st sec) @ scan f (if st = QUOTED then UNQUOTED else QUOTED) [] rest"
        using nonempty "1.IH" [of "int n" sec rest "tr @ apply_state f st sec" "if st = QUOTED then UNQUOTED else QUOTED"]
        by (cases st; simp add: idx sec rest)
      with step show ?thesis using True by (simp add: scan_quote sec_def rest_def)
    qed
  qed
qed

lemma processUnquoted_scan: "processUnquoted s f = scan f UNQUOTED [] s"
  by (simp add: processUnquoted_def processUnquoted_loop_scan)

section \<open>Properties of numbers and their digits\<close>

lemma digit_char_is_digit: "d < 10 \<Longrightarrow> is_digit (digit_char d)"
proof -
  assume "d < 10"
  then have "d \<in> {0, 1, 2, 3, 4, 5, 6, 7, 8, 9}" by auto
  then show ?thesis by (auto simp: is_digit_def digit_char_def)
qed

lemma digit_char_value: "d < 10 \<Longrightarrow> radix_digit_value (digit_char d) = d"
proof -
  assume "d < 10"
  then have "d \<in> {0, 1, 2, 3, 4, 5, 6, 7, 8, 9}" by auto
  then show ?thesis by (auto simp: radix_digit_value_def digit_char_def)
qed

lemma is_digit_radix: "is_digit c \<Longrightarrow> is_radix_digit 10 c"
  by (auto simp: is_digit_def is_radix_digit_def)

lemma is_digit_not_whitespace: "is_digit c \<Longrightarrow> \<not> is_whitespace c"
  by (auto simp: is_digit_def is_whitespace_def)

lemma decimal_nonempty: "decimal n \<noteq> []"
  by (subst decimal.simps) simp

lemma decimal_digits: "list_all is_digit (decimal n)"
proof (induction n rule: decimal.induct)
  case (1 n)
  show ?case
  proof (cases "n < 10")
    case True
    then show ?thesis by (subst decimal.simps) (simp add: digit_char_is_digit)
  next
    case False
    then show ?thesis using 1 by (subst decimal.simps) (simp add: digit_char_is_digit)
  qed
qed

lemma radix_value_snoc: "radix_value r (ds @ [c]) = radix_value r ds * r + radix_digit_value c"
  by (simp add: radix_value_def)

lemma radix_value_decimal: "radix_value 10 (decimal n) = n"
proof (induction n rule: decimal.induct)
  case (1 n)
  show ?case
  proof (cases "n < 10")
    case True
    then show ?thesis by (subst decimal.simps) (simp add: radix_value_def digit_char_value)
  next
    case False
    then have "radix_value 10 (decimal (n div 10)) = n div 10" using 1 by simp
    then show ?thesis using False
      by (subst decimal.simps) (simp add: radix_value_snoc digit_char_value)
  qed
qed

lemma decimal_times_10: "0 < s \<Longrightarrow> decimal (s * 10) = decimal s @ ''0''"
  by (subst decimal.simps) (simp add: digit_char_def)

lemma decimal_times_power: "0 < s \<Longrightarrow> decimal (s * 10 ^ j) = decimal s @ replicate j (CHR ''0'')"
proof (induction j)
  case 0
  then show ?case by simp
next
  case (Suc j)
  have "decimal (s * 10 ^ Suc j) = decimal ((s * 10 ^ j) * 10)" by (simp add: mult.commute mult.left_commute)
  also have "\<dots> = decimal (s * 10 ^ j) @ ''0''" using Suc.prems by (intro decimal_times_10) simp
  also have "\<dots> = decimal s @ replicate (Suc j) (CHR ''0'')"
    using Suc by (simp add: replicate_append_same)
  finally show ?case .
qed

lemma decimal_length_bound: "n < 10 ^ k \<Longrightarrow> 0 < k \<Longrightarrow> length (decimal n) \<le> k"
proof (induction n arbitrary: k rule: decimal.induct)
  case (1 n)
  show ?case
  proof (cases "n < 10")
    case True
    then show ?thesis using "1.prems" by (subst decimal.simps) simp
  next
    case False
    then obtain k' where k': "k = Suc k'" using "1.prems" by (cases k) auto
    have "0 < k'" using False "1.prems" k' by (cases k') auto
    moreover have "n div 10 < 10 ^ k'" using "1.prems" k' by (simp add: less_mult_imp_div_less mult.commute)
    ultimately have "length (decimal (n div 10)) \<le> k'" using "1.IH" False by simp
    then show ?thesis using False k' by (subst decimal.simps) simp
  qed
qed

lemma decimal_length_lower: "10 ^ k \<le> n \<Longrightarrow> k < length (decimal n)"
proof (induction n arbitrary: k rule: decimal.induct)
  case (1 n)
  show ?case
  proof (cases "n < 10")
    case True
    have "k = 0"
    proof (cases k)
      case 0
      then show ?thesis .
    next
      case (Suc j)
      have "(1::nat) \<le> 10 ^ j" by simp
      then have "(10::nat) \<le> 10 ^ k" using Suc by simp
      with True "1.prems" show ?thesis by simp
    qed
    then show ?thesis by (simp add: decimal_nonempty)
  next
    case False
    show ?thesis
    proof (cases k)
      case 0
      then show ?thesis by (simp add: decimal_nonempty)
    next
      case (Suc k')
      then have "10 ^ k' \<le> n div 10" using "1.prems" by (simp add: less_eq_div_iff_mult_less_eq mult.commute)
      then have "k' < length (decimal (n div 10))" using "1.IH" False by simp
      then show ?thesis using False Suc by (subst decimal.simps) simp
    qed
  qed
qed

lemma bit_length_bounds: "0 < n \<Longrightarrow> 2 ^ (bit_length n - 1) \<le> n \<and> n < 2 ^ bit_length n"
proof (induction n rule: bit_length.induct)
  case (1 n)
  show ?case
  proof (cases "n div 2 = 0")
    case True
    then have "n = 1" using "1.prems" by auto
    then show ?thesis by (simp add: bit_length.simps)
  next
    case False
    then have IH: "2 ^ (bit_length (n div 2) - 1) \<le> n div 2 \<and> n div 2 < 2 ^ bit_length (n div 2)"
      using 1 by simp
    have pos: "0 < bit_length (n div 2)" using False by (subst bit_length.simps) simp
    have bl: "bit_length n = Suc (bit_length (n div 2))"
      using "1.prems" by (subst bit_length.simps) simp
    have "2 ^ (bit_length n - 1) = 2 * 2 ^ (bit_length (n div 2) - 1)"
      using pos bl by (cases "bit_length (n div 2)") auto
    also have "\<dots> \<le> 2 * (n div 2)" using IH by simp
    also have "\<dots> \<le> n" by simp
    finally have lower: "2 ^ (bit_length n - 1) \<le> n" .
    have "n < 2 * (n div 2) + 2" by presburger
    also have "\<dots> \<le> 2 * 2 ^ bit_length (n div 2)" using IH by simp
    finally have "n < 2 ^ bit_length n" using bl by simp
    with lower show ?thesis by simp
  qed
qed

lemma round_magnitude_small: "a < 2 ^ 53 \<Longrightarrow> round_magnitude a = a"
  by (simp add: round_magnitude_def)

lemma round_magnitude_large:
  assumes "2 ^ 53 \<le> a"
  shows "2 ^ 53 \<le> round_magnitude a"
proof -
  define e where "e = bit_length a - 53"
  define q where "q = a div 2 ^ e"
  have apos: "0 < a" using assms by (simp add: order.strict_trans2 [of 0 "2 ^ 53" a])
  have bl: "53 < bit_length a"
  proof (rule ccontr)
    assume "\<not> 53 < bit_length a"
    then have "bit_length a \<le> 53" by simp
    then have "(2::nat) ^ bit_length a \<le> 2 ^ 53" by (intro power_increasing) simp_all
    then show False using bit_length_bounds [OF apos] assms by simp
  qed
  then have e: "0 < e" "bit_length a - 1 = 52 + e" by (simp_all add: e_def)
  have "2 ^ 52 * 2 ^ e \<le> a" using bit_length_bounds [OF apos] e by (simp add: power_add)
  then have "2 ^ 52 \<le> q" unfolding q_def by (simp add: less_eq_div_iff_mult_less_eq)
  moreover have "(2::nat) \<le> 2 ^ e" using e(1) by (cases e) auto
  ultimately have "2 ^ 52 * 2 \<le> q * 2 ^ e" by (intro mult_le_mono)
  then have low: "2 ^ 53 \<le> q * 2 ^ e" by simp
  have "q * 2 ^ e \<le> (q + 1) * 2 ^ e" by simp
  with low have low': "2 ^ 53 \<le> (q + 1) * 2 ^ e" by (rule order_trans)
  show ?thesis using assms low low'
    by (simp add: round_magnitude_def Let_def e_def [symmetric] q_def [symmetric] del: One_nat_def)
qed

lemma round_magnitude_exact: "a < 2 ^ 53 \<Longrightarrow> round_magnitude y = a \<longleftrightarrow> y = a"
proof
  assume a: "a < 2 ^ 53" and r: "round_magnitude y = a"
  show "y = a"
  proof (cases "y < 2 ^ 53")
    case True
    then show ?thesis using r by (simp add: round_magnitude_small)
  next
    case False
    then have "2 ^ 53 \<le> round_magnitude y" by (intro round_magnitude_large) simp
    then show ?thesis using a r by simp
  qed
next
  assume "a < 2 ^ 53" and "y = a"
  then show "round_magnitude y = a" by (simp add: round_magnitude_small)
qed

lemma digits_candidate_small:
  assumes "a < 2 ^ 53" and "0 < a"
  shows "digits_candidate a n0 k =
    (if a mod 10 ^ (n0 - k) = 0 then Some (k, a div 10 ^ (n0 - k), n0) else None)"
proof -
  define p :: nat where "p = 10 ^ (n0 - k)"
  have ppos: "0 < p" by (simp add: p_def)
  have lo: "round_magnitude (a div p * p) = a \<longleftrightarrow> a mod p = 0"
    using round_magnitude_exact [OF assms(1), of "a div p * p"]
    by (metis add.right_neutral div_mult_mod_eq dvd_imp_mod_0 dvd_triv_right mod_mult_self2_is_0 mult.commute add_left_cancel)
  have "a < (a div p + 1) * p" using ppos by (metis Suc_eq_plus1 dividend_less_div_times mult.commute mult_Suc)
  then have hi: "round_magnitude ((a div p + 1) * p) \<noteq> a"
    using round_magnitude_exact [OF assms(1), of "(a div p + 1) * p"] by simp
  show ?thesis
    unfolding digits_candidate_def Let_def p_def [symmetric] using lo hi by simp
qed

lemma shortest_digits_small:
  "a < 2 ^ 53 \<Longrightarrow> 0 < a \<Longrightarrow>
     \<exists>k' s. shortest_digits a n0 k = (k', s, n0) \<and> s * 10 ^ (n0 - k') = a"
proof (induction a n0 k rule: shortest_digits.induct)
  case (1 a n0 k)
  show ?case
  proof (cases "n0 \<le> k")
    case True
    then show ?thesis by (subst shortest_digits.simps) simp
  next
    case False
    note cand = digits_candidate_small [OF "1.prems", of n0 k]
    show ?thesis
    proof (cases "a mod 10 ^ (n0 - k) = 0")
      case True
      then have "shortest_digits a n0 k = (k, a div 10 ^ (n0 - k), n0)"
        using False cand by (subst shortest_digits.simps) simp
      moreover have "a div 10 ^ (n0 - k) * 10 ^ (n0 - k) = a"
        using True by (simp add: mod_eq_0_iff_dvd)
      ultimately show ?thesis by blast
    next
      case mod: False
      then have none: "digits_candidate a n0 k = None" using cand by simp
      have "shortest_digits a n0 k = shortest_digits a n0 (k + 1)"
        using False none by (subst shortest_digits.simps) simp
      then show ?thesis using "1.IH" [OF False none "1.prems"] by simp
    qed
  qed
qed

lemma magnitude_toString_small:
  assumes "a < 2 ^ 53" and "0 < a"
  shows "magnitude_toString a = decimal a"
proof -
  obtain k' s where sd: "shortest_digits a (length (decimal a)) 1 = (k', s, length (decimal a))"
    and prod: "s * 10 ^ (length (decimal a) - k') = a"
    using shortest_digits_small [OF assms] by blast
  have "a < 10 ^ 16" using assms(1) by simp
  then have len: "length (decimal a) \<le> 21" using decimal_length_bound [of a 16] by simp
  have spos: "0 < s" using prod assms(2) by (cases s) auto
  have "decimal s @ replicate (length (decimal a) - k') (CHR ''0'') = decimal a"
    using decimal_times_power [OF spos, of "length (decimal a) - k'"] prod by simp
  then show ?thesis unfolding magnitude_toString_def sd using len by simp
qed

lemma Number_toString_small:
  "n < 2 ^ 53 \<Longrightarrow> Number_toString (Finite (int n)) = decimal n"
proof (cases "n = 0")
  case True
  then show ?thesis by (simp add: decimal.simps digit_char_def)
next
  case False
  assume "n < 2 ^ 53"
  then show ?thesis using False by (simp add: magnitude_toString_small)
qed

lemma Number_toString_small_negative:
  "n < 2 ^ 53 \<Longrightarrow> 0 < n \<Longrightarrow> Number_toString (Finite (- int n)) = CHR ''-'' # decimal n"
  by (simp add: magnitude_toString_small)

lemma round_to_double_small: "n < 2 ^ 53 \<Longrightarrow> round_to_double (int n) = Finite (int n)"
proof -
  assume n: "n < 2 ^ 53"
  have "(2::nat) ^ 53 \<le> 2 ^ 1024" by (intro power_increasing) simp_all
  with n have "\<not> 2 ^ 1024 \<le> n" by linarith
  with n show ?thesis by (simp add: round_to_double_def round_magnitude_small)
qed

lemma round_to_double_small_negative:
  "n < 2 ^ 53 \<Longrightarrow> round_to_double (- int n) = Finite (- int n)"
proof -
  assume n: "n < 2 ^ 53"
  have "(2::nat) ^ 53 \<le> 2 ^ 1024" by (intro power_increasing) simp_all
  with n have "\<not> 2 ^ 1024 \<le> n" by linarith
  with n show ?thesis by (simp add: round_to_double_def round_magnitude_small)
qed

lemma takeWhile_digits:
  "list_all is_digit ds \<Longrightarrow> takeWhile (is_radix_digit 10) ds = ds"
  by (induction ds) (auto simp: is_digit_radix)

lemma digits_first: "list_all is_digit ds \<Longrightarrow> ds \<noteq> [] \<Longrightarrow> is_digit (hd ds)"
  by (cases ds) auto

lemma digits_no_hex_prefix:
  "list_all is_digit ds \<Longrightarrow> \<not> prefix [c, CHR ''x''] ds \<and> \<not> prefix [c, CHR ''X''] ds
     \<and> \<not> prefix [c, CHR ''o''] ds \<and> \<not> prefix [c, CHR ''O''] ds
     \<and> \<not> prefix [c, CHR ''b''] ds \<and> \<not> prefix [c, CHR ''B''] ds"
  by (cases ds; cases "tl ds") (auto simp: is_digit_def)

lemma parseInt_digits:
  assumes "list_all is_digit ds" and "ds \<noteq> []"
  shows "parseInt ds = round_to_double (int (radix_value 10 ds))"
proof -
  have hd: "is_digit (hd ds)" using assms by (rule digits_first)
  then have ws: "dropWhile is_whitespace ds = ds"
    using assms(2) is_digit_not_whitespace by (cases ds) auto
  have sign: "hd ds \<noteq> CHR ''-''" "hd ds \<noteq> CHR ''+''" using hd by (auto simp: is_digit_def)
  show ?thesis
    using assms sign digits_no_hex_prefix [OF assms(1)]
    by (simp add: parseInt_def ws Let_def takeWhile_digits)
qed

lemma parseInt_minus_digits:
  assumes "list_all is_digit ds" and "ds \<noteq> []"
  shows "parseInt (CHR ''-'' # ds) = round_to_double (- int (radix_value 10 ds))"
  using assms digits_no_hex_prefix [OF assms(1)]
  by (simp add: parseInt_def is_whitespace_def Let_def takeWhile_digits)

lemma parseInt_decimal: "n < 2 ^ 53 \<Longrightarrow> parseInt (decimal n) = Finite (int n)"
  by (simp add: parseInt_digits decimal_digits decimal_nonempty radix_value_decimal
      round_to_double_small)


section \<open>Properties of \<^verbatim>\<open>convertInt\<close>\<close>

lemma trim_core:
  assumes "s \<noteq> []" and "\<not> is_whitespace (hd s)" and "\<not> is_whitespace (last s)"
    and "list_all is_whitespace ws1" and "list_all is_whitespace ws2"
  shows "trim (ws1 @ s @ ws2) = s"
proof -
  have ws1: "dropWhile is_whitespace (ws1 @ s @ ws2) = s @ ws2"
    using assms(1,2,4) by (induction ws1) (auto simp: neq_Nil_conv)
  obtain y ys where r: "rev s = y # ys" using assms(1) by (cases "rev s") auto
  have "y = last s" using r by (metis hd_rev list.sel(1))
  then have "\<not> is_whitespace y" using assms(3) by simp
  then have self: "dropWhile is_whitespace (rev s) = rev s" unfolding r by simp
  have "dropWhile is_whitespace (rev ws2 @ rev s) = dropWhile is_whitespace (rev s)"
    using assms(5) by (intro dropWhile_append2) (auto simp: list_all_iff)
  then show ?thesis by (simp add: trim_def ws1 self)
qed

lemma trim_digits:
  assumes "list_all is_digit ds" and "ds \<noteq> []"
    and "list_all is_whitespace ws1" and "list_all is_whitespace ws2"
    and that: "sign = [] \<or> sign = ''-''"
  shows "trim (ws1 @ sign @ ds @ ws2) = sign @ ds"
proof -
  have last: "is_digit (last ds)" using assms(1,2) by (induction ds) auto
  have hd: "is_digit (hd ds)" using assms(1,2) by (cases ds) auto
  have "trim (ws1 @ (sign @ ds) @ ws2) = sign @ ds"
  proof (rule trim_core)
    show "sign @ ds \<noteq> []" using assms(2) by simp
    show "\<not> is_whitespace (hd (sign @ ds))"
      using that hd assms(2) is_digit_not_whitespace by (auto simp: is_whitespace_def)
    show "\<not> is_whitespace (last (sign @ ds))"
      using last assms(2) is_digit_not_whitespace by simp
  qed (use assms in auto)
  then show ?thesis by simp
qed

lemma BigInt_of_digits:
  assumes "list_all is_digit ds" and "ds \<noteq> []"
  shows "BigInt_of_string ds = Returns (JBigInt (int (radix_value 10 ds)))"
proof -
  have t: "trim ds = ds" using trim_digits [OF assms, of "[]" "[]" "[]"] by simp
  have hd: "is_digit (hd ds)" using assms by (cases ds) auto
  then have sign: "hd ds \<noteq> CHR ''-''" "hd ds \<noteq> CHR ''+''" by (auto simp: is_digit_def)
  show ?thesis
    using assms sign digits_no_hex_prefix [OF assms(1)]
    by (simp add: BigInt_of_string_def t Let_def)
qed

lemma BigInt_of_minus_digits:
  assumes "list_all is_digit ds" and "ds \<noteq> []"
  shows "BigInt_of_string (CHR ''-'' # ds) = Returns (JBigInt (- int (radix_value 10 ds)))"
proof -
  have t: "trim (CHR ''-'' # ds) = CHR ''-'' # ds"
    using trim_digits [OF assms, of "[]" "[]" "''-''"] by simp
  show ?thesis using assms by (simp add: BigInt_of_string_def t Let_def)
qed

lemma convertInt_safe:
  assumes "list_all is_whitespace ws1" and "list_all is_whitespace ws2" and "n < 2 ^ 53"
  shows "convertInt (JString (ws1 @ decimal n @ ws2)) = Returns (JNumber (Finite (int n)))"
proof -
  have "trim (ws1 @ [] @ decimal n @ ws2) = [] @ decimal n"
    using assms(1,2) by (intro trim_digits) (simp_all add: decimal_digits decimal_nonempty)
  then have t: "trim (ws1 @ decimal n @ ws2) = decimal n" by simp
  have p: "parseInt (decimal n) = Finite (int n)" using assms(3) by (rule parseInt_decimal)
  have ts: "Number_toString (Finite (int n)) = decimal n"
    using assms(3) by (rule Number_toString_small)
  show ?thesis unfolding convertInt.simps t Let_def p ts by simp
qed

lemma convertInt_safe_negative:
  assumes "list_all is_whitespace ws1" and "list_all is_whitespace ws2"
    and "n < 2 ^ 53" and "0 < n"
  shows "convertInt (JString (ws1 @ ''-'' @ decimal n @ ws2)) = Returns (JNumber (Finite (- int n)))"
proof -
  have t: "trim (ws1 @ ''-'' @ decimal n @ ws2) = ''-'' @ decimal n"
    using assms(1,2) by (intro trim_digits) (simp_all add: decimal_digits decimal_nonempty)
  have "parseInt (CHR ''-'' # decimal n) = round_to_double (- int (radix_value 10 (decimal n)))"
    by (intro parseInt_minus_digits) (simp_all add: decimal_digits decimal_nonempty)
  also have "\<dots> = Finite (- int n)"
    unfolding radix_value_decimal using assms(3) by (rule round_to_double_small_negative)
  finally have p: "parseInt (''-'' @ decimal n) = Finite (- int n)" by simp
  have ts: "Number_toString (Finite (- int n)) = ''-'' @ decimal n"
    using Number_toString_small_negative [OF assms(3,4)] by simp
  show ?thesis unfolding convertInt.simps t Let_def p ts by simp
qed

lemma convertInt_bigint:
  assumes "list_all is_whitespace ws1" and "list_all is_whitespace ws2"
    and "list_all is_digit ds" and "ds \<noteq> []"
    and "Number_toString (parseInt ds) \<noteq> ds"
  shows "convertInt (JString (ws1 @ ds @ ws2)) = Returns (JBigInt (int (radix_value 10 ds)))"
proof -
  have "trim (ws1 @ [] @ ds @ ws2) = [] @ ds"
    using assms(1-4) by (intro trim_digits) simp_all
  then have t: "trim (ws1 @ ds @ ws2) = ds" by simp
  have neq: "(ds = Number_toString (parseInt ds)) = False" using assms(5) by auto
  show ?thesis
    unfolding convertInt.simps t Let_def neq using assms(3,4) by (simp add: BigInt_of_digits)
qed

lemma convertInt_bigint_negative:
  assumes "list_all is_whitespace ws1" and "list_all is_whitespace ws2"
    and "list_all is_digit ds" and "ds \<noteq> []"
    and "Number_toString (parseInt (''-'' @ ds)) \<noteq> ''-'' @ ds"
  shows "convertInt (JString (ws1 @ ''-'' @ ds @ ws2)) = Returns (JBigInt (- int (radix_value 10 ds)))"
proof -
  have t: "trim (ws1 @ ''-'' @ ds @ ws2) = ''-'' @ ds"
    using assms(1-4) by (intro trim_digits) simp_all
  have neq: "(''-'' @ ds = Number_toString (parseInt (''-'' @ ds))) = False"
    using assms(5) by auto
  show ?thesis
    unfolding convertInt.simps t Let_def neq using assms(3,4) by (simp add: BigInt_of_minus_digits)
qed

lemma ten_digits_safe: "length (decimal n) = 10 \<Longrightarrow> n < 2 ^ 53"
proof (rule ccontr)
  assume len: "length (decimal n) = 10" and "\<not> n < 2 ^ 53"
  then have "10 ^ 10 \<le> n" by simp
  then have "10 < length (decimal n)" by (rule decimal_length_lower)
  with len show False by simp
qed

lemma parseInt_2_53_1: "parseInt ''9007199254740993'' = Finite 9007199254740992"
  by (simp add: parseInt_def is_whitespace_def is_radix_digit_def radix_value_def
      radix_digit_value_def round_to_double_def round_magnitude_def bit_length.simps Let_def
      cong: let_weak_cong)

lemma parseInt_2_53: "parseInt ''9007199254740992'' = Finite 9007199254740992"
  by (simp add: parseInt_def is_whitespace_def is_radix_digit_def radix_value_def
      radix_digit_value_def round_to_double_def round_magnitude_def bit_length.simps Let_def
      cong: let_weak_cong)

lemma Number_toString_2_53: "Number_toString (Finite 9007199254740992) = ''9007199254740992''"
  by (simp add: magnitude_toString_def shortest_digits.simps digits_candidate_def
      round_magnitude_def bit_length.simps decimal.simps digit_char_def Let_def
      cong: let_weak_cong)


lemma toString_parseInt_2_53_1:
  "Number_toString (parseInt ''9007199254740993'') = ''9007199254740992''"
  unfolding parseInt_2_53_1 by (rule Number_toString_2_53)

lemma convertInt_number:
  assumes "list_all is_whitespace ws1" and "list_all is_whitespace ws2"
    and "list_all is_digit ds" and "ds \<noteq> []" and "sign = [] \<or> sign = ''-''"
    and "Number_toString (parseInt (sign @ ds)) = sign @ ds"
  shows "convertInt (JString (ws1 @ sign @ ds @ ws2)) = Returns (JNumber (parseInt (sign @ ds)))"
proof -
  have t: "trim (ws1 @ sign @ ds @ ws2) = sign @ ds"
    using assms(3,4,1,2,5) by (rule trim_digits)
  show ?thesis unfolding convertInt.simps t Let_def using assms(6) by simp
qed

lemma convertInt_sign_digits:
  assumes "list_all is_whitespace ws1" and "list_all is_whitespace ws2"
    and "list_all is_digit ds" and "ds \<noteq> []" and "sign = [] \<or> sign = ''-''"
  shows "convertInt (JString (ws1 @ sign @ ds @ ws2)) =
     (if Number_toString (parseInt (sign @ ds)) = sign @ ds
      then Returns (JNumber (parseInt (sign @ ds)))
      else Returns (JBigInt ((if sign = [] then 1 else - 1) * int (radix_value 10 ds))))"
proof (cases "Number_toString (parseInt (sign @ ds)) = sign @ ds")
  case True
  then show ?thesis using convertInt_number [OF assms True] by simp
next
  case False
  show ?thesis
  proof (cases "sign = []")
    case True
    then show ?thesis
      using convertInt_bigint [OF assms(1-4)] False by simp
  next
    case minus: False
    then have "sign = ''-''" using assms(5) by simp
    then show ?thesis
      using convertInt_bigint_negative [OF assms(1-4)] False by simp
  qed
qed

lemma parseInt_2_53_2: "parseInt ''9007199254740994'' = Finite 9007199254740994"
  by (simp add: parseInt_def is_whitespace_def is_radix_digit_def radix_value_def
      radix_digit_value_def round_to_double_def round_magnitude_def bit_length.simps Let_def
      cong: let_weak_cong)

lemma Number_toString_2_53_2: "Number_toString (Finite 9007199254740994) = ''9007199254740994''"
  by (simp add: magnitude_toString_def shortest_digits.simps digits_candidate_def
      round_magnitude_def bit_length.simps decimal.simps digit_char_def Let_def
      cong: let_weak_cong)

lemma toString_parseInt_2_53_2:
  "Number_toString (parseInt ''9007199254740994'') = ''9007199254740994''"
  unfolding parseInt_2_53_2 by (rule Number_toString_2_53_2)

lemma parseInt_10_19: "parseInt ''10000000000000000000'' = Finite 10000000000000000000"
  by (simp add: parseInt_def is_whitespace_def is_radix_digit_def radix_value_def
      radix_digit_value_def round_to_double_def round_magnitude_def bit_length.simps Let_def
      cong: let_weak_cong)

lemma Number_toString_10_19:
  "Number_toString (Finite 10000000000000000000) = ''10000000000000000000''"
  by (simp add: magnitude_toString_def shortest_digits.simps digits_candidate_def
      round_magnitude_def bit_length.simps decimal.simps digit_char_def Let_def
      cong: let_weak_cong)

lemma toString_parseInt_10_19:
  "Number_toString (parseInt ''10000000000000000000'') = ''10000000000000000000''"
  unfolding parseInt_10_19 by (rule Number_toString_10_19)

lemma parseInt_leading_zeros: "parseInt ''0000000001'' = Finite 1"
  by (simp add: parseInt_def is_whitespace_def is_radix_digit_def radix_value_def
      radix_digit_value_def round_to_double_def round_magnitude_def bit_length.simps Let_def
      cong: let_weak_cong)

lemma Number_toString_1: "Number_toString (Finite 1) = ''1''"
  by (simp add: magnitude_toString_def shortest_digits.simps digits_candidate_def
      round_magnitude_def bit_length.simps decimal.simps digit_char_def Let_def
      cong: let_weak_cong)

lemma toString_parseInt_leading_zeros: "Number_toString (parseInt ''0000000001'') = ''1''"
  unfolding parseInt_leading_zeros by (rule Number_toString_1)

lemma parseInt_minus_zero: "parseInt ''-0'' = Finite 0"
  by (simp add: parseInt_def is_whitespace_def is_radix_digit_def radix_value_def
      radix_digit_value_def round_to_double_def round_magnitude_def bit_length.simps Let_def
      cong: let_weak_cong)

lemma Number_toString_0: "Number_toString (Finite 0) = ''0''"
  by (simp add: magnitude_toString_def shortest_digits.simps digits_candidate_def
      round_magnitude_def bit_length.simps decimal.simps digit_char_def Let_def
      cong: let_weak_cong)

lemma toString_parseInt_minus_zero: "Number_toString (parseInt ''-0'') = ''0''"
  unfolding parseInt_minus_zero by (rule Number_toString_0)

lemma convertInt_2_53_2:
  "convertInt (JString ''9007199254740994'') = Returns (JNumber (Finite 9007199254740994))"
proof -
  have "convertInt (JString ([] @ [] @ ''9007199254740994'' @ [])) =
      Returns (JNumber (parseInt ([] @ ''9007199254740994'')))"
    by (rule convertInt_number) (simp_all add: is_digit_def toString_parseInt_2_53_2)
  then show ?thesis by (simp add: parseInt_2_53_2 del: convertInt.simps)
qed

lemma convertInt_10_19:
  "convertInt (JString ''10000000000000000000'') =
     Returns (JNumber (Finite 10000000000000000000))"
proof -
  have "convertInt (JString ([] @ [] @ ''10000000000000000000'' @ [])) =
      Returns (JNumber (parseInt ([] @ ''10000000000000000000'')))"
    by (rule convertInt_number) (simp_all add: is_digit_def toString_parseInt_10_19)
  then show ?thesis by (simp add: parseInt_10_19 del: convertInt.simps)
qed

lemma convertInt_leading_zeros:
  "convertInt (JString ''0000000001'') = Returns (JBigInt 1)"
proof -
  have "convertInt (JString ([] @ ''0000000001'' @ [])) =
      Returns (JBigInt (int (radix_value 10 ''0000000001'')))"
    by (rule convertInt_bigint) (simp_all add: is_digit_def toString_parseInt_leading_zeros)
  then show ?thesis by (simp add: radix_value_def radix_digit_value_def del: convertInt.simps)
qed

lemma convertInt_minus_zero: "convertInt (JString ''-0'') = Returns (JBigInt 0)"
proof -
  have "convertInt (JString ([] @ ''-'' @ ''0'' @ [])) =
      Returns (JBigInt (- int (radix_value 10 ''0'')))"
    by (rule convertInt_bigint_negative)
      (simp_all add: is_digit_def toString_parseInt_minus_zero)
  then show ?thesis by (simp add: radix_value_def radix_digit_value_def del: convertInt.simps)
qed

text \<open>
  C5, as amended. \<^verbatim>\<open>convertInt\<close> trims the payload and parses it as a Number. For a
  payload of digits with an optional minus sign, whatever white space surrounds it, the
  result is that Number exactly when the Number prints back as the trimmed payload, and
  the BigInt of the digits otherwise. The test is on the text, not on the size: every
  number below \<open>2 ^ 53\<close> written in its decimal form, of either sign, is returned as a
  Number; above it \<open>9007199254740993\<close> is a BigInt, while \<open>9007199254740994\<close> and
  \<open>10000000000000000000\<close> print back as themselves and are Numbers; and below it
  \<open>0000000001\<close> and \<open>-0\<close>, which no Number prints, are BigInts.
\<close>

theorem convertInt_exact_round_trip:
  assumes "list_all is_whitespace ws1" and "list_all is_whitespace ws2"
  shows "(list_all is_digit ds \<and> ds \<noteq> [] \<and> (sign = [] \<or> sign = ''-'') \<longrightarrow>
            convertInt (JString (ws1 @ sign @ ds @ ws2)) =
              (if Number_toString (parseInt (sign @ ds)) = sign @ ds
               then Returns (JNumber (parseInt (sign @ ds)))
               else Returns (JBigInt ((if sign = [] then 1 else - 1) * int (radix_value 10 ds)))))
       \<and> (n < 2 ^ 53 \<longrightarrow>
            convertInt (JString (ws1 @ decimal n @ ws2)) = Returns (JNumber (Finite (int n))))
       \<and> (0 < n \<and> n < 2 ^ 53 \<longrightarrow>
            convertInt (JString (ws1 @ ''-'' @ decimal n @ ws2)) =
              Returns (JNumber (Finite (- int n))))
       \<and> (list_all is_digit ds \<and> ds \<noteq> [] \<and> Number_toString (parseInt ds) \<noteq> ds \<longrightarrow>
            convertInt (JString (ws1 @ ds @ ws2)) = Returns (JBigInt (int (radix_value 10 ds))))
       \<and> convertInt (JString ''9007199254740992'') = Returns (JNumber (Finite 9007199254740992))
       \<and> convertInt (JString ''9007199254740993'') = Returns (JBigInt 9007199254740993)
       \<and> convertInt (JString ''9007199254740994'') = Returns (JNumber (Finite 9007199254740994))
       \<and> convertInt (JString ''10000000000000000000'') =
           Returns (JNumber (Finite 10000000000000000000))
       \<and> convertInt (JString ''0000000001'') = Returns (JBigInt 1)
       \<and> convertInt (JString ''-0'') = Returns (JBigInt 0)"
proof (intro conjI impI)
  assume "list_all is_digit ds \<and> ds \<noteq> [] \<and> (sign = [] \<or> sign = ''-'')"
  then show "convertInt (JString (ws1 @ sign @ ds @ ws2)) =
      (if Number_toString (parseInt (sign @ ds)) = sign @ ds
       then Returns (JNumber (parseInt (sign @ ds)))
       else Returns (JBigInt ((if sign = [] then 1 else - 1) * int (radix_value 10 ds))))"
    using assms by (intro convertInt_sign_digits) simp_all
next
  assume "n < 2 ^ 53"
  then show "convertInt (JString (ws1 @ decimal n @ ws2)) = Returns (JNumber (Finite (int n)))"
    using assms by (intro convertInt_safe)
next
  assume "0 < n \<and> n < 2 ^ 53"
  then show "convertInt (JString (ws1 @ ''-'' @ decimal n @ ws2)) =
      Returns (JNumber (Finite (- int n)))"
    using assms by (intro convertInt_safe_negative) simp_all
next
  assume "list_all is_digit ds \<and> ds \<noteq> [] \<and> Number_toString (parseInt ds) \<noteq> ds"
  then show "convertInt (JString (ws1 @ ds @ ws2)) = Returns (JBigInt (int (radix_value 10 ds)))"
    using assms by (intro convertInt_bigint) simp_all
next
  have "trim ''9007199254740992'' = ''9007199254740992''"
    by (simp add: trim_def is_whitespace_def)
  then show "convertInt (JString ''9007199254740992'') =
      Returns (JNumber (Finite 9007199254740992))"
    unfolding convertInt.simps Let_def by (simp only: parseInt_2_53 Number_toString_2_53) simp
next
  have "convertInt (JString ([] @ ''9007199254740993'' @ [])) =
      Returns (JBigInt (int (radix_value 10 ''9007199254740993'')))"
    by (rule convertInt_bigint)
      (simp_all add: is_digit_def toString_parseInt_2_53_1)
  then show "convertInt (JString ''9007199254740993'') = Returns (JBigInt 9007199254740993)"
    by (simp add: radix_value_def radix_digit_value_def)
next
  show "convertInt (JString ''9007199254740994'') = Returns (JNumber (Finite 9007199254740994))"
    by (rule convertInt_2_53_2)
next
  show "convertInt (JString ''10000000000000000000'') =
      Returns (JNumber (Finite 10000000000000000000))"
    by (rule convertInt_10_19)
next
  show "convertInt (JString ''0000000001'') = Returns (JBigInt 1)"
    by (rule convertInt_leading_zeros)
next
  show "convertInt (JString ''-0'') = Returns (JBigInt 0)"
    by (rule convertInt_minus_zero)
qed

lemma decimal_1234567890: "decimal 1234567890 = ''1234567890''"
  by (simp add: decimal.simps digit_char_def)

theorem convertInt_exact_round_trip_witness:
  "convertInt (JString '' 1234567890'') = Returns (JNumber (Finite 1234567890))
   \<and> convertInt (JString '' -1234567890'') = Returns (JNumber (Finite (- 1234567890)))
   \<and> convertInt (JString '' 9007199254740993'') = Returns (JBigInt 9007199254740993)
   \<and> convertInt (JString '' 9007199254740994'') = Returns (JNumber (Finite 9007199254740994))"
proof -
  have ws: "list_all is_whitespace '' ''" "list_all is_whitespace []"
    by (simp_all add: is_whitespace_def)
  note inst3 = convertInt_exact_round_trip [OF ws, where n = 1234567890
      and ds = "''9007199254740993''" and sign = "[]"]
  note inst4 = convertInt_exact_round_trip [OF ws, where n = 1234567890
      and ds = "''9007199254740994''" and sign = "[]"]
  have h1: "list_all is_digit ''9007199254740994'' \<and> ''9007199254740994'' \<noteq> []
      \<and> (([]::string) = [] \<or> ([]::string) = ''-'')"
    by (simp add: is_digit_def)
  have h2: "(1234567890::nat) < 2 ^ 53" by simp
  have h3: "0 < (1234567890::nat) \<and> (1234567890::nat) < 2 ^ 53" by simp
  have h4: "list_all is_digit ''9007199254740993'' \<and> ''9007199254740993'' \<noteq> []
      \<and> Number_toString (parseInt ''9007199254740993'') \<noteq> ''9007199254740993''"
    by (simp add: is_digit_def toString_parseInt_2_53_1)
  have v: "radix_value 10 ''9007199254740993'' = 9007199254740993"
    by (simp add: radix_value_def radix_digit_value_def)
  note r1 = inst4 [THEN conjunct1, THEN mp, OF h1]
  note r2 = inst3 [THEN conjunct2, THEN conjunct1, THEN mp, OF h2]
  note r3 = inst3 [THEN conjunct2, THEN conjunct2, THEN conjunct1, THEN mp, OF h3]
  note r4 = inst3 [THEN conjunct2, THEN conjunct2, THEN conjunct2, THEN conjunct1, THEN mp, OF h4]
  have c1: "convertInt (JString '' 9007199254740994'') =
      Returns (JNumber (Finite 9007199254740994))"
    using r1 unfolding append_Nil toString_parseInt_2_53_2 parseInt_2_53_2 Number_toString_2_53_2
    by (simp del: convertInt.simps)
  have c2: "convertInt (JString '' 1234567890'') = Returns (JNumber (Finite 1234567890))"
    using r2 by (simp add: decimal_1234567890 del: convertInt.simps)
  have c3: "convertInt (JString '' -1234567890'') = Returns (JNumber (Finite (- 1234567890)))"
    using r3 by (simp add: decimal_1234567890 del: convertInt.simps)
  have c4: "convertInt (JString '' 9007199254740993'') = Returns (JBigInt 9007199254740993)"
    using r4 by (simp add: v del: convertInt.simps)
  show ?thesis using c1 c2 c3 c4 by (intro conjI)
qed

text \<open>
  C5, as stated, fails: a number whose decimal form has ten digits is below \<open>2 ^ 53\<close>, so
  none is "one unit beyond exact representability", and \<^verbatim>\<open>convertInt\<close> returns no
  BigInt for the decimal form of any of them.
\<close>

theorem ten_digit_literal_never_bigint:
  "\<not> (\<exists>n i. length (decimal n) = 10 \<and> convertInt (JString (decimal n)) = Returns (JBigInt i))"
proof
  assume "\<exists>n i. length (decimal n) = 10 \<and> convertInt (JString (decimal n)) = Returns (JBigInt i)"
  then obtain n i where len: "length (decimal n) = 10"
    and big: "convertInt (JString (decimal n)) = Returns (JBigInt i)" by blast
  have "n < 2 ^ 53" using len by (rule ten_digits_safe)
  then have "convertInt (JString ([] @ decimal n @ [])) = Returns (JNumber (Finite (int n)))"
    by (intro convertInt_safe) simp_all
  with big show False by simp
qed

section \<open>Evaluating the model on concrete texts\<close>

lemmas regex_eval = string_replace_def regex_exec_def regex_test_def placeholder_text_def
  replaceFromString_def MAPPINGS_def replacement_key_def is_digit_def

lemmas host_parse_eval = JSON_parse_def json_whitespace_def skip_ws_def is_array_index_def
  object_set_def json_number_def json_syntax_error_def is_digit_def radix_value_def
  radix_digit_value_def round_to_double_def round_magnitude_def bit_length.simps
  decimal.simps digit_char_def

lemmas reviver_eval = reviver_def full_reviver_def regex_test_def regex_exec_def MAPPINGS_def
  replacement_key_def is_digit_def

lemmas catch_eval = parse_catch_def match_line_column_at_def substring_numbers_def substring_def
  is_digit_def parseInt_def is_whitespace_def is_radix_digit_def radix_value_def
  radix_digit_value_def round_to_double_def round_magnitude_def

lemmas encode_eval = stringify_def JSON_stringify_def replaceFromObject_def mapper_matches_def
  placeholder_object_def MAPPINGS_def replacement_key_def QuoteJSONString_def wrap_parts_def
  match_placeholder_at_def is_whitespace_def

lemma bind_weak_cong: "m = m' \<Longrightarrow> bind m f = bind m' f"
  by simp

lemma full_replacer_none: "full_replacer NoReplacer = replaceFromObject"
  by (intro ext) simp

section \<open>Properties of \<^verbatim>\<open>replaceFromString\<close>\<close>

subsection \<open>A token that occurs twice in a segment\<close>

lemma replaceFromString_null_null:
  \<open>replaceFromString ''[null, null]'' = ''[{"fprime{replacement": "null"}, null]''\<close>
  by (simp add: regex_eval)

text \<open>
  C2. \<^verbatim>\<open>replaceFromString\<close> calls \<^verbatim>\<open>String.prototype.replace\<close> once for each row, with
  a regular expression that has no \<^verbatim>\<open>g\<close> flag, so only the first match of a row in a
  segment is wrapped into a placeholder. In the segment \<^verbatim>\<open>[null, null]\<close> the second
  \<^verbatim>\<open>null\<close> is left as it is: the result is not the text with every match wrapped.
\<close>

theorem replaceFromString_first_match_only:
  \<open>replaceFromString ''[null, null]'' = ''[{"fprime{replacement": "null"}, null]''
   \<and> replaceFromString ''[null, null]'' \<noteq>
       ''[{"fprime{replacement": "null"}, {"fprime{replacement": "null"}]''\<close>
  by (simp add: replaceFromString_null_null)

subsection \<open>Runs of digits\<close>

lemma literal_not_found:
  "c \<in> set w \<Longrightarrow> c \<notin> set s \<Longrightarrow> regex_exec_from (Literal w) s i = None"
proof (induction s arbitrary: i)
  case Nil
  then show ?case by auto
next
  case (Cons x xs)
  have "\<not> prefix w (x # xs)"
  proof
    assume "prefix w (x # xs)"
    then have "set w \<subseteq> set (x # xs)" by (rule set_mono_prefix)
    with Cons.prems show False by auto
  qed
  then show ?case using Cons by simp
qed

lemma literal_replace_absent:
  "c \<in> set w \<Longrightarrow> c \<notin> set s \<Longrightarrow> string_replace s (Literal w) template = s"
  by (simp add: string_replace_def regex_exec_def literal_not_found)

lemma bigint_not_found:
  "CHR '' '' \<notin> set s \<Longrightarrow> regex_exec_from BigIntRun s i = None"
  by (induction s arbitrary: i) (auto simp: Let_def)

lemma takeWhile_digits_then:
  "list_all is_digit ds \<Longrightarrow> post = [] \<or> \<not> is_digit (hd post) \<Longrightarrow>
     takeWhile is_digit (ds @ post) = ds"
  by (induction ds) (auto simp: neq_Nil_conv takeWhile_eq_Nil_iff)

lemma bigint_match_here:
  assumes "list_all is_digit ds" and "10 \<le> length ds" and "sign = [] \<or> sign = ''-''"
    and "post = [] \<or> \<not> is_digit (hd post)"
  shows "match_at BigIntRun (CHR '' '' # sign @ ds @ post) = Some (1 + length sign + length ds)"
proof -
  have ne: "ds \<noteq> []" using assms(2) by auto
  then have hd: "is_digit (hd ds)" using assms(1) by (cases ds) auto
  then have nominus: "hd ds \<noteq> CHR ''-''" by (auto simp: is_digit_def)
  show ?thesis
  proof (cases "sign = []")
    case True
    then show ?thesis
      using ne nominus assms(2) takeWhile_digits_then [OF assms(1,4)]
      by (simp add: Let_def hd_append)
  next
    case False
    then have "sign = ''-''" using assms(3) by simp
    then show ?thesis
      using assms(2) takeWhile_digits_then [OF assms(1,4)] by (simp add: Let_def)
  qed
qed

lemma bigint_found:
  assumes "list_all is_digit ds" and "10 \<le> length ds" and "sign = [] \<or> sign = ''-''"
    and "post = [] \<or> \<not> is_digit (hd post)" and "CHR '' '' \<notin> set pre"
  shows "regex_exec_from BigIntRun (pre @ CHR '' '' # sign @ ds @ post) i =
    Some (i + length pre, 1 + length sign + length ds)"
  using assms(5)
proof (induction pre arbitrary: i)
  case Nil
  show ?case using bigint_match_here [OF assms(1-4)] by simp
next
  case (Cons c pre)
  then have "c \<noteq> CHR '' ''" by auto
  then have "match_at BigIntRun (c # pre @ CHR '' '' # sign @ ds @ post) = None"
    by (simp add: Let_def)
  then show ?case using Cons by simp
qed

lemma bigint_replace:
  assumes "list_all is_digit ds" and "10 \<le> length ds" and "sign = [] \<or> sign = ''-''"
    and "post = [] \<or> \<not> is_digit (hd post)" and "CHR '' '' \<notin> set pre"
  shows "string_replace (pre @ CHR '' '' # sign @ ds @ post) BigIntRun template =
    pre @ template (CHR '' '' # sign @ ds) @ post"
  using bigint_found [OF assms, of 0] by (simp add: string_replace_def regex_exec_def)

lemma replaceFromString_no_literal:
  assumes "CHR ''I'' \<notin> set s" and "CHR ''N'' \<notin> set s" and "CHR ''n'' \<notin> set s"
  shows "replaceFromString s = string_replace s BigIntRun placeholder_text"
proof -
  have "string_replace s (Literal ''-Infinity'') placeholder_text = s"
    by (rule literal_replace_absent [of "CHR ''I''"]) (use assms in simp_all)
  moreover have "string_replace s (Literal ''Infinity'') placeholder_text = s"
    by (rule literal_replace_absent [of "CHR ''I''"]) (use assms in simp_all)
  moreover have "string_replace s (Literal ''NaN'') placeholder_text = s"
    by (rule literal_replace_absent [of "CHR ''N''"]) (use assms in simp_all)
  moreover have "string_replace s (Literal ''null'') placeholder_text = s"
    by (rule literal_replace_absent [of "CHR ''n''"]) (use assms in simp_all)
  ultimately show ?thesis by (simp add: replaceFromString_def MAPPINGS_def)
qed

lemma digits_no_letters:
  "list_all is_digit ds \<Longrightarrow> CHR ''I'' \<notin> set ds \<and> CHR ''N'' \<notin> set ds \<and> CHR ''n'' \<notin> set ds
     \<and> CHR '' '' \<notin> set ds"
  by (induction ds) (auto simp: is_digit_def)

lemma replaceFromString_space_run:
  assumes "list_all is_digit ds" and "10 \<le> length ds" and "sign = [] \<or> sign = ''-''"
    and "post = [] \<or> \<not> is_digit (hd post)" and "CHR '' '' \<notin> set pre"
    and "set (pre @ post) \<inter> set ''INn'' = {}"
  shows "replaceFromString (pre @ CHR '' '' # sign @ ds @ post) =
    pre @ placeholder_text (CHR '' '' # sign @ ds) @ post"
proof -
  have "replaceFromString (pre @ CHR '' '' # sign @ ds @ post) =
      string_replace (pre @ CHR '' '' # sign @ ds @ post) BigIntRun placeholder_text"
    using assms(3,6) digits_no_letters [OF assms(1)]
    by (intro replaceFromString_no_literal) auto
  then show ?thesis using bigint_replace [OF assms(1-5)] by simp
qed

lemma replaceFromString_no_space:
  assumes "CHR '' '' \<notin> set seg" and "set seg \<inter> set ''INn'' = {}"
  shows "replaceFromString seg = seg"
proof -
  have "replaceFromString seg = string_replace seg BigIntRun placeholder_text"
    using assms(2) by (intro replaceFromString_no_literal) auto
  then show ?thesis using assms(1) by (simp add: string_replace_def regex_exec_def bigint_not_found)
qed

lemma reviver_bigint_payload:
  assumes "list_all is_digit ds" and "10 \<le> length ds" and "sign = [] \<or> sign = ''-''"
  shows "reviver key (JObject [(replacement_key, JString (CHR '' '' # sign @ ds))]) =
    convertInt (JString (CHR '' '' # sign @ ds))"
proof -
  define payload where "payload = CHR '' '' # sign @ ds"
  have letters: "CHR ''I'' \<notin> set payload" "CHR ''N'' \<notin> set payload" "CHR ''n'' \<notin> set payload"
    using assms(3) digits_no_letters [OF assms(1)] by (auto simp: payload_def)
  have lit: "regex_test (Literal ''-Infinity'') payload = False"
    "regex_test (Literal ''Infinity'') payload = False"
    "regex_test (Literal ''NaN'') payload = False"
    "regex_test (Literal ''null'') payload = False"
    using letters by (simp_all add: regex_test_def regex_exec_def literal_not_found [of "CHR ''I''"]
        literal_not_found [of "CHR ''N''"] literal_not_found [of "CHR ''n''"])
  have "regex_exec_from BigIntRun ([] @ CHR '' '' # sign @ ds @ []) 0 =
      Some (0 + length ([]::string), 1 + length sign + length ds)"
    using assms by (intro bigint_found) simp_all
  then have big: "regex_test BigIntRun payload = True"
    by (simp add: regex_test_def regex_exec_def payload_def)
  show ?thesis
    unfolding payload_def [symmetric]
    by (simp add: reviver_def MAPPINGS_def lit big)
qed

lemma parseInt_20_digits: "parseInt ''12345678901234567890'' = Finite 12345678901234567168"
  by (simp add: parseInt_def is_whitespace_def is_radix_digit_def radix_value_def
      radix_digit_value_def round_to_double_def round_magnitude_def bit_length.simps Let_def
      cong: let_weak_cong)

lemma Number_toString_20_digits:
  "Number_toString (Finite 12345678901234567168) = ''12345678901234567000''"
  by (simp add: magnitude_toString_def shortest_digits.simps digits_candidate_def
      round_magnitude_def bit_length.simps decimal.simps digit_char_def Let_def
      cong: let_weak_cong)

lemma toString_parseInt_20_digits:
  "Number_toString (parseInt ''12345678901234567890'') = ''12345678901234567000''"
  unfolding parseInt_20_digits by (rule Number_toString_20_digits)

lemma convertInt_spaced_digits:
  "convertInt (JString '' 12345678901234567890'') = Returns (JBigInt 12345678901234567890)"
proof -
  have "convertInt (JString ('' '' @ ''12345678901234567890'' @ [])) =
      Returns (JBigInt (int (radix_value 10 ''12345678901234567890'')))"
    by (rule convertInt_bigint)
      (simp_all add: is_whitespace_def is_digit_def toString_parseInt_20_digits)
  then show ?thesis by (simp add: radix_value_def radix_digit_value_def)
qed

text \<open>
  A run of ten or more digits after a space, with an optional minus sign, in a segment
  that has no earlier space and none of the letters \<^verbatim>\<open>I\<close>, \<^verbatim>\<open>N\<close> and \<^verbatim>\<open>n\<close>, so that
  no other row and no earlier position matches: the rewriter wraps the space, the sign
  and the digits into a placeholder, and the reviver hands that payload to
  \<^verbatim>\<open>convertInt\<close>. After \<^verbatim>\<open>[\<close>, \<^verbatim>\<open>:\<close> or \<^verbatim>\<open>,\<close> the run is left as it is.
\<close>

lemma bigint_run_after_space:
  assumes "list_all is_digit ds" and "10 \<le> length ds" and "sign = [] \<or> sign = ''-''"
  shows "(CHR '' '' \<notin> set pre \<and> (post = [] \<or> \<not> is_digit (hd post))
            \<and> set (pre @ post) \<inter> set ''INn'' = {} \<longrightarrow>
          replaceFromString (pre @ CHR '' '' # sign @ ds @ post) =
            pre @ placeholder_text (CHR '' '' # sign @ ds) @ post)
       \<and> (c \<in> set ''[:,'' \<longrightarrow> replaceFromString (c # sign @ ds) = c # sign @ ds)
       \<and> reviver key (JObject [(replacement_key, JString (CHR '' '' # sign @ ds))]) =
           convertInt (JString (CHR '' '' # sign @ ds))
       \<and> (Number_toString (parseInt (sign @ ds)) \<noteq> sign @ ds \<longrightarrow>
           convertInt (JString (CHR '' '' # sign @ ds)) =
             Returns (JBigInt ((if sign = [] then 1 else - 1) * int (radix_value 10 ds))))"
proof (intro conjI impI)
  assume "CHR '' '' \<notin> set pre \<and> (post = [] \<or> \<not> is_digit (hd post))
    \<and> set (pre @ post) \<inter> set ''INn'' = {}"
  then show "replaceFromString (pre @ CHR '' '' # sign @ ds @ post) =
      pre @ placeholder_text (CHR '' '' # sign @ ds) @ post"
    using assms by (intro replaceFromString_space_run) simp_all
next
  assume c: "c \<in> set ''[:,''"
  show "replaceFromString (c # sign @ ds) = c # sign @ ds"
    using c assms(3) digits_no_letters [OF assms(1)]
    by (intro replaceFromString_no_space) auto
next
  show "reviver key (JObject [(replacement_key, JString (CHR '' '' # sign @ ds))]) =
      convertInt (JString (CHR '' '' # sign @ ds))"
    using assms by (rule reviver_bigint_payload)
next
  assume differ: "Number_toString (parseInt (sign @ ds)) \<noteq> sign @ ds"
  have ne: "ds \<noteq> []" using assms(2) by auto
  have ws: "list_all is_whitespace '' ''" "list_all is_whitespace []"
    by (simp_all add: is_whitespace_def)
  show "convertInt (JString (CHR '' '' # sign @ ds)) =
      Returns (JBigInt ((if sign = [] then 1 else - 1) * int (radix_value 10 ds)))"
  proof (cases "sign = []")
    case True
    then show ?thesis
      using convertInt_bigint [OF ws assms(1) ne] differ by simp
  next
    case False
    then have "sign = ''-''" using assms(3) by simp
    then show ?thesis
      using convertInt_bigint_negative [OF ws assms(1) ne] differ by simp
  qed
qed

lemma bigint_run_after_space_example:
  \<open>replaceFromString ''[ 12345678901234567890]'' =
     ''[{"fprime{replacement": " 12345678901234567890"}]''
   \<and> replaceFromString ''[12345678901234567890'' = ''[12345678901234567890''
   \<and> reviver ''0'' (JObject [(replacement_key, JString '' 12345678901234567890'')]) =
       Returns (JBigInt 12345678901234567890)\<close>
proof -
  have d: "list_all is_digit ''12345678901234567890''" by (simp add: is_digit_def)
  have l: "10 \<le> length ''12345678901234567890''" by simp
  have s: "([]::string) = [] \<or> ([]::string) = ''-''" by simp
  note inst = bigint_run_after_space [OF d l s, where pre = "''[''" and post = "'']''"
      and c = "CHR ''[''" and key = "''0''"]
  have h1: "CHR '' '' \<notin> set ''['' \<and> ('']'' = [] \<or> \<not> is_digit (hd '']''))
      \<and> set (''['' @ '']'') \<inter> set ''INn'' = {}"
    by (simp add: is_digit_def)
  have h2: "CHR ''['' \<in> set ''[:,''" by simp
  have h4: "Number_toString (parseInt ([] @ ''12345678901234567890'')) \<noteq>
      [] @ ''12345678901234567890''"
    by (simp add: toString_parseInt_20_digits)
  have v: "radix_value 10 ''12345678901234567890'' = 12345678901234567890"
    by (simp add: radix_value_def radix_digit_value_def)
  note r1 = inst [THEN conjunct1, THEN mp, OF h1]
  note r2 = inst [THEN conjunct2, THEN conjunct1, THEN mp, OF h2]
  note r3 = inst [THEN conjunct2, THEN conjunct2, THEN conjunct1]
  note r4 = inst [THEN conjunct2, THEN conjunct2, THEN conjunct2, THEN mp, OF h4]
  have "reviver ''0'' (JObject [(replacement_key, JString '' 12345678901234567890'')]) =
      Returns (JBigInt 12345678901234567890)"
    using r3 r4 by (simp add: v)
  then show ?thesis using r1 r2 by (simp add: placeholder_text_def)
qed

lemma rewritten_array_digits:
  "processUnquoted ''[12345678901234567890]'' replaceFromString = ''[12345678901234567890]''"
  by (simp add: processUnquoted_scan regex_eval)

lemma parse_array_digits:
  "parse JSON_parse ''[12345678901234567890]'' None =
     Returns (JArray [JNumber (Finite 12345678901234567168)])"
  unfolding parse_def rewritten_array_digits Let_def
  by (simp add: host_parse_eval reviver_eval Let_def cong: let_weak_cong bind_weak_cong)

lemma rewritten_array_spaced_digits:
  \<open>processUnquoted ''[ 12345678901234567890]'' replaceFromString =
     ''[{"fprime{replacement": " 12345678901234567890"}]''\<close>
  by (simp add: processUnquoted_scan regex_eval)

lemma parse_spaced_digits:
  "parse JSON_parse ''[ 12345678901234567890]'' None =
     Returns (JArray [JBigInt 12345678901234567890])"
  unfolding parse_def rewritten_array_spaced_digits Let_def
  by (simp add: host_parse_eval reviver_eval convertInt_spaced_digits Let_def
      del: convertInt.simps cong: let_weak_cong bind_weak_cong)

lemma rewritten_digits:
  "processUnquoted ''12345678901234567890'' replaceFromString = ''12345678901234567890''"
  by (simp add: processUnquoted_scan regex_eval)

lemma parse_digits:
  "parse JSON_parse ''12345678901234567890'' None = Returns (JNumber (Finite 12345678901234567168))"
  unfolding parse_def rewritten_digits Let_def
  by (simp add: host_parse_eval reviver_eval Let_def cong: let_weak_cong)

lemma rewritten_member_digits:
  \<open>processUnquoted ''{"a":12345678901234567890}'' replaceFromString =
     ''{"a":12345678901234567890}''\<close>
  by (simp add: processUnquoted_scan regex_eval)

lemma parse_member_digits:
  \<open>parse JSON_parse ''{"a":12345678901234567890}'' None =
     Returns (JObject [(''a'', JNumber (Finite 12345678901234567168))])\<close>
  unfolding parse_def rewritten_member_digits Let_def
  by (simp add: host_parse_eval reviver_eval Let_def cong: let_weak_cong bind_weak_cong)

lemma rewritten_second_digits:
  "processUnquoted ''[1,12345678901234567890]'' replaceFromString = ''[1,12345678901234567890]''"
  by (simp add: processUnquoted_scan regex_eval)

lemma parse_second_digits:
  "parse JSON_parse ''[1,12345678901234567890]'' None =
     Returns (JArray [JNumber (Finite 1), JNumber (Finite 12345678901234567168)])"
  unfolding parse_def rewritten_second_digits Let_def
  by (simp add: host_parse_eval reviver_eval Let_def cong: let_weak_cong bind_weak_cong)

text \<open>
  C6. The pattern of the big-integer row, \<^verbatim>\<open>/( -?\d{10,})/\<close>, starts with a space, so a run
  of digits is a token only when a space stands right before it. At the start of the text
  and after \<^verbatim>\<open>[\<close>, \<^verbatim>\<open>:\<close> or \<^verbatim>\<open>,\<close> the run is not rewritten: the host's decoder reads
  \<^verbatim>\<open>12345678901234567890\<close> as the Number nearest to it, \<^verbatim>\<open>12345678901234567168\<close>, and
  \<^verbatim>\<open>parse\<close> returns that Number without an error. The same digits after a space come
  back as the BigInt.
\<close>

theorem digits_without_space_not_bigint:
  \<open>parse JSON_parse ''[12345678901234567890]'' None =
     Returns (JArray [JNumber (Finite 12345678901234567168)])
   \<and> parse JSON_parse ''12345678901234567890'' None =
       Returns (JNumber (Finite 12345678901234567168))
   \<and> parse JSON_parse ''{"a":12345678901234567890}'' None =
       Returns (JObject [(''a'', JNumber (Finite 12345678901234567168))])
   \<and> parse JSON_parse ''[1,12345678901234567890]'' None =
       Returns (JArray [JNumber (Finite 1), JNumber (Finite 12345678901234567168)])
   \<and> parse JSON_parse ''[ 12345678901234567890]'' None =
       Returns (JArray [JBigInt 12345678901234567890])\<close>
  using parse_array_digits parse_digits parse_member_digits parse_second_digits
    parse_spaced_digits
  by (intro conjI)

section \<open>Properties of \<^verbatim>\<open>parse\<close>\<close>

subsection \<open>A text the host accepts and \<^verbatim>\<open>parse\<close> does not\<close>

lemma rewritten_null_null:
  \<open>processUnquoted ''[null, null]'' replaceFromString = ''[{"fprime{replacement": "null"}, null]''\<close>
  by (simp add: processUnquoted_scan replaceFromString_null_null)

lemma rewritten_null_null_is_json:
  \<open>JSON_parse ''[{"fprime{replacement": "null"}, null]'' (\<lambda>key v. Returns v) =
     Returns (JArray [JObject [(''fprime{replacement'', JString ''null'')], JNull])\<close>
  by (simp add: host_parse_eval Let_def cong: let_weak_cong)

lemma rewritten_null_null_revived:
  \<open>JSON_parse ''[{"fprime{replacement": "null"}, null]'' (full_reviver None) =
     Throws (Error ''TypeError'' ''Cannot read properties of null'')\<close>
  by (simp add: host_parse_eval reviver_eval Let_def cong: let_weak_cong)

lemma parse_null_null:
  \<open>parse JSON_parse ''[null, null]'' None =
     Throws (Error ''TypeError'' ''Cannot read properties of null'')\<close>
  unfolding parse_def rewritten_null_null Let_def rewritten_null_null_revived
  by (simp add: parse_catch_def match_line_column_at_def)

text \<open>
  C9. The text \<^verbatim>\<open>[null, null]\<close> is rewritten to a text the host's decoder accepts (it
  holds one placeholder and one plain \<^verbatim>\<open>null\<close>), and yet \<^verbatim>\<open>parse\<close> throws: the
  reviver reads the property \<^verbatim>\<open>fprime{replacement\<close> of the plain \<^verbatim>\<open>null\<close>, which is a
  \<^verbatim>\<open>TypeError\<close>; its text names no line and column, so it is thrown on as it is.
\<close>

theorem parse_throws_on_accepted_text:
  \<open>JSON_parse (processUnquoted ''[null, null]'' replaceFromString) (\<lambda>key v. Returns v) =
     Returns (JArray [JObject [(''fprime{replacement'', JString ''null'')], JNull])
   \<and> parse JSON_parse ''[null, null]'' None =
       Throws (Error ''TypeError'' ''Cannot read properties of null'')\<close>
  unfolding rewritten_null_null
  using rewritten_null_null_is_json parse_null_null by (rule conjI)

subsection \<open>The catch block\<close>

lemma substring_window:
  "substring s (int c - 6) (int c + 5) = drop (c - 6) (take (c + 5) s)"
proof -
  define a where "a = min (c - 6) (length s)"
  define b where "b = min (c + 5) (length s)"
  have A: "max 0 (min (int c - 6) (int (length s))) = int a" by (auto simp: a_def)
  have B: "max 0 (min (int c + 5) (int (length s))) = int b" by (auto simp: b_def)
  have le: "a \<le> b" by (auto simp: a_def b_def)
  have d: "nat (int b - int a) = b - a" by arith
  have "substring s (int c - 6) (int c + 5) = take (b - a) (drop a s)"
    unfolding substring_def Let_def A B using le by (simp add: min_absorb1 max_absorb2 d)
  also have "\<dots> = drop a (take b s)" by (simp add: drop_take)
  also have "\<dots> = drop (c - 6) (take (c + 5) s)"
    by (cases "c - 6 \<le> length s") (simp_all add: a_def b_def min_def)
  finally show ?thesis .
qed

lemma parse_catch_no_match:
  "match_line_column (error_toString e) = None \<Longrightarrow> parse_catch converted_data e = Throws e"
  by (simp add: parse_catch_def)

lemma parse_catch_match:
  assumes "match_line_column (error_toString e) = Some (line_digits, column_digits)"
    and "array_get (split_lines converted_data) (number_add (parseInt line_digits) (- 1)) = Some line"
  shows "parse_catch converted_data e =
     Throws (Error ''SyntaxError'' (error_toString e @ ''. Offending snippet: '' @
       substring_numbers line (number_add (parseInt column_digits) (- 6)) (number_add (parseInt column_digits) 5)))"
  using assms by (simp add: parse_catch_def)

lemma number_add_small:
  "\<bar>i + k\<bar> < 2 ^ 53 \<Longrightarrow> number_add (Finite i) k = Finite (i + k)"
proof -
  assume small: "\<bar>i + k\<bar> < 2 ^ 53"
  then have n: "nat \<bar>i + k\<bar> < 2 ^ 53" by (simp add: nat_less_iff)
  have "(2::nat) ^ 53 \<le> 2 ^ 1024" by (intro power_increasing) simp_all
  with n have big: "\<not> 2 ^ 1024 \<le> nat \<bar>i + k\<bar>" by linarith
  show ?thesis
    using big by (simp add: round_to_double_def round_magnitude_small [OF n] Let_def)
qed

lemma parse_throws:
  "language_parse (processUnquoted json_string replaceFromString) (full_reviver input_reviver) =
     Throws e \<Longrightarrow>
   parse language_parse json_string input_reviver =
     parse_catch (processUnquoted json_string replaceFromString) e"
  by (simp add: parse_def)

lemma parse_catch_window:
  assumes m: "match_line_column (error_toString e) = Some (line_digits, column_digits)"
    and p1: "parseInt line_digits = Finite (int line_number)"
    and p2: "parseInt column_digits = Finite (int column)"
    and bounds: "0 < line_number" "line_number \<le> length (split_lines converted_data)"
      "line_number < 2 ^ 53" "column + 5 < 2 ^ 53"
  shows "parse_catch converted_data e =
     Throws (Error ''SyntaxError'' (error_toString e @ ''. Offending snippet: '' @
       drop (column - 6) (take (column + 5) (split_lines converted_data ! (line_number - 1)))))"
proof -
  define line where "line = split_lines converted_data ! (line_number - 1)"
  have l1: "number_add (Finite (int line_number)) (- 1) = Finite (int line_number + - 1)"
    using bounds by (intro number_add_small) simp
  have c1: "number_add (Finite (int column)) (- 6) = Finite (int column + - 6)"
    using bounds by (intro number_add_small) (simp add: abs_if)
  have c2: "number_add (Finite (int column)) 5 = Finite (int column + 5)"
    using bounds by (intro number_add_small) simp
  have idx: "nat (int line_number + - 1) = line_number - 1" by arith
  have get: "array_get (split_lines converted_data) (number_add (parseInt line_digits) (- 1)) = Some line"
    unfolding p1 l1 array_get.simps idx using bounds by (simp add: line_def)
  have "substring_numbers line (number_add (parseInt column_digits) (- 6)) (number_add (parseInt column_digits) 5)
      = substring line (int column - 6) (int column + 5)"
    unfolding p2 c1 c2 substring_numbers_def number_to_index.simps by simp
  also have "\<dots> = drop (column - 6) (take (column + 5) line)" by (rule substring_window)
  finally have snip: "substring_numbers line (number_add (parseInt column_digits) (- 6))
      (number_add (parseInt column_digits) 5) = drop (column - 6) (take (column + 5) line)" .
  from parse_catch_match [OF m get]
  have "parse_catch converted_data e =
      Throws (Error ''SyntaxError'' (error_toString e @ ''. Offending snippet: '' @
        drop (column - 6) (take (column + 5) line)))"
    unfolding snip .
  then show ?thesis unfolding line_def .
qed

text \<open>
  C7, as amended. When the host's decoder throws and the text of the error holds
  \<^verbatim>\<open>line L column C\<close>, \<^verbatim>\<open>parse\<close> throws a SyntaxError whose message is that text
  followed by \<^verbatim>\<open>. Offending snippet: \<close> and the characters of line \<open>L\<close> of the rewritten
  text at the columns \<open>C - 5\<close> to \<open>C + 5\<close> that exist: at most 11 characters, and exactly 11
  with the reported column in the middle when the line reaches five columns to either
  side. With no line and column in the text, the error of the host is thrown again.
\<close>

theorem parse_error_snippet:
  assumes "converted_data = processUnquoted json_string replaceFromString"
    and "language_parse converted_data (full_reviver input_reviver) = Throws e"
    and "line = split_lines converted_data ! (line_number - 1)"
    and "snippet = drop (column - 6) (take (column + 5) line)"
  shows "(match_line_column (error_toString e) = None \<longrightarrow>
            parse language_parse json_string input_reviver = Throws e)
       \<and> (match_line_column (error_toString e) = Some (line_digits, column_digits)
            \<and> parseInt line_digits = Finite (int line_number) \<and> parseInt column_digits = Finite (int column)
            \<and> 0 < line_number \<and> line_number \<le> length (split_lines converted_data)
            \<and> line_number < 2 ^ 53 \<and> column + 5 < 2 ^ 53 \<longrightarrow>
            parse language_parse json_string input_reviver =
              Throws (Error ''SyntaxError''
                (error_toString e @ ''. Offending snippet: '' @ snippet))
            \<and> length snippet \<le> 11
            \<and> (6 \<le> column \<and> column + 5 \<le> length line \<longrightarrow>
                 length snippet = 11 \<and> snippet ! 5 = line ! (column - 1)))"
proof (intro conjI impI)
  assume "match_line_column (error_toString e) = None"
  then show "parse language_parse json_string input_reviver = Throws e"
    using assms(1,2) by (simp add: parse_throws parse_catch_no_match)
next
  assume h: "match_line_column (error_toString e) = Some (line_digits, column_digits)
    \<and> parseInt line_digits = Finite (int line_number) \<and> parseInt column_digits = Finite (int column)
    \<and> 0 < line_number \<and> line_number \<le> length (split_lines converted_data)
    \<and> line_number < 2 ^ 53 \<and> column + 5 < 2 ^ 53"
  have "parse language_parse json_string input_reviver = parse_catch converted_data e"
    using assms(1,2) by (simp add: parse_throws)
  also have "\<dots> = Throws (Error ''SyntaxError''
      (error_toString e @ ''. Offending snippet: '' @ snippet))"
  proof -
    from h have m: "match_line_column (error_toString e) = Some (line_digits, column_digits)"
      and p1: "parseInt line_digits = Finite (int line_number)"
      and p2: "parseInt column_digits = Finite (int column)"
      and b: "0 < line_number" "line_number \<le> length (split_lines converted_data)"
        "line_number < 2 ^ 53" "column + 5 < 2 ^ 53"
      by simp_all
    show ?thesis unfolding assms(3,4) by (rule parse_catch_window [OF m p1 p2 b])
  qed
  finally show "parse language_parse json_string input_reviver =
      Throws (Error ''SyntaxError'' (error_toString e @ ''. Offending snippet: '' @ snippet))" .
next
  show "length snippet \<le> 11" by (simp add: assms(4))
next
  assume "6 \<le> column \<and> column + 5 \<le> length line"
  then show "length snippet = 11" by (simp add: assms(4))
next
  assume "6 \<le> column \<and> column + 5 \<le> length line"
  then show "snippet ! 5 = line ! (column - 1)" by (simp add: assms(4))
qed

lemma two_line_converted: "processUnquoted two_line_text replaceFromString = two_line_rewritten"
  by (simp add: two_line_text_def two_line_rewritten_def processUnquoted_scan regex_eval)

lemma two_line_throws:
  "JSON_parse two_line_rewritten (full_reviver None) =
     Throws (Error ''SyntaxError''
       ''JSON.parse: unexpected character at line 2 column 13 of the JSON data'')"
  by (simp add: two_line_rewritten_def host_parse_eval reviver_eval Let_def cong: let_weak_cong)

lemma two_line_match:
  "match_line_column (error_toString (Error ''SyntaxError''
       ''JSON.parse: unexpected character at line 2 column 13 of the JSON data'')) =
     Some (''2'', ''13'')"
  by (simp add: match_line_column_at_def is_digit_def Let_def cong: let_weak_cong)

lemma two_line_lines:
  \<open>split_lines two_line_rewritten =
     [''{"a": 1,'', '' "b": [1, 2,, {"fprime{replacement": "Infinity"}]}'']\<close>
  by (simp add: two_line_rewritten_def)

lemma parseInt_2: "parseInt ''2'' = Finite (int 2)"
  and parseInt_13: "parseInt ''13'' = Finite (int 13)"
  and parseInt_1: "parseInt ''1'' = Finite (int 1)"
  and parseInt_7: "parseInt ''7'' = Finite (int 7)"
  by (simp_all add: parseInt_def is_whitespace_def is_radix_digit_def radix_value_def
      radix_digit_value_def round_to_double_def round_magnitude_def Let_def cong: let_weak_cong)

theorem parse_error_snippet_witness:
  \<open>parse JSON_parse two_line_text None =
     Throws (Error ''SyntaxError''
       (''SyntaxError: JSON.parse: unexpected character at line 2 column 13 of the JSON data'' @
        ''. Offending snippet: '' @ ''1, 2,, {"fp''))
   \<and> length ''1, 2,, {"fp'' = 11
   \<and> ''1, 2,, {"fp'' ! 5 = '' "b": [1, 2,, {"fprime{replacement": "Infinity"}]}'' ! (13 - 1)\<close>
proof -
  have line: \<open>'' "b": [1, 2,, {"fprime{replacement": "Infinity"}]}'' =
      split_lines two_line_rewritten ! (2 - 1)\<close>
    by (simp add: two_line_lines)
  have snippet: \<open>''1, 2,, {"fp'' =
      drop (13 - 6) (take (13 + 5) '' "b": [1, 2,, {"fprime{replacement": "Infinity"}]}'')\<close>
    by simp
  have hyps: \<open>match_line_column (error_toString (Error ''SyntaxError''
        ''JSON.parse: unexpected character at line 2 column 13 of the JSON data'')) =
        Some (''2'', ''13'')
      \<and> parseInt ''2'' = Finite (int 2) \<and> parseInt ''13'' = Finite (int 13)
      \<and> 0 < (2::nat) \<and> 2 \<le> length (split_lines two_line_rewritten)
      \<and> (2::nat) < 2 ^ 53 \<and> (13::nat) + 5 < 2 ^ 53\<close>
    by (intro conjI two_line_match parseInt_2 parseInt_13) (simp_all add: two_line_lines)
  have inner: \<open>6 \<le> (13::nat) \<and>
      13 + 5 \<le> length '' "b": [1, 2,, {"fprime{replacement": "Infinity"}]}''\<close>
    by simp
  note inst = parse_error_snippet [where language_parse = JSON_parse
      and json_string = two_line_text and input_reviver = None
      and converted_data = two_line_rewritten and line_number = 2 and column = 13
      and line_digits = "''2''" and column_digits = "''13''",
      OF two_line_converted [symmetric] two_line_throws line snippet]
  note body = inst [THEN conjunct2, THEN mp, OF hyps]
  note thrown = body [THEN conjunct1]
  note centred = body [THEN conjunct2, THEN conjunct2, THEN mp, OF inner]
  show ?thesis using thrown centred by simp
qed

lemma scenario_converted: \<open>processUnquoted ''{"a": ,}'' replaceFromString = ''{"a": ,}''\<close>
  by (simp add: processUnquoted_scan regex_eval)

lemma scenario_throws:
  \<open>JSON_parse ''{"a": ,}'' (full_reviver None) =
     Throws (Error ''SyntaxError''
       ''JSON.parse: unexpected character at line 1 column 7 of the JSON data'')\<close>
  by (simp add: host_parse_eval reviver_eval Let_def cong: let_weak_cong)

lemma scenario_match:
  "match_line_column (error_toString (Error ''SyntaxError''
       ''JSON.parse: unexpected character at line 1 column 7 of the JSON data'')) =
     Some (''1'', ''7'')"
  by (simp add: match_line_column_at_def is_digit_def Let_def cong: let_weak_cong)

text \<open>
  C7, as stated, fails on the spec's own scenario: the text \<^verbatim>\<open>{"a": ,}\<close> has 8
  characters, the error is reported at column 7, and the snippet has the 7 characters
  from column 2 on.
\<close>

theorem snippet_shorter_than_11:
  \<open>parse JSON_parse ''{"a": ,}'' None =
     Throws (Error ''SyntaxError''
       (''SyntaxError: JSON.parse: unexpected character at line 1 column 7 of the JSON data'' @
        ''. Offending snippet: '' @ ''"a": ,}''))
   \<and> length ''"a": ,}'' = 7\<close>
proof -
  have \<open>parse JSON_parse ''{"a": ,}'' None =
      parse_catch ''{"a": ,}'' (Error ''SyntaxError''
        ''JSON.parse: unexpected character at line 1 column 7 of the JSON data'')\<close>
    using parse_throws [of JSON_parse \<open>''{"a": ,}''\<close> None] scenario_throws
    by (simp add: scenario_converted)
  also have \<open>\<dots> = Throws (Error ''SyntaxError''
      (error_toString (Error ''SyntaxError''
         ''JSON.parse: unexpected character at line 1 column 7 of the JSON data'') @
       ''. Offending snippet: '' @
       drop (7 - 6) (take (7 + 5) (split_lines ''{"a": ,}'' ! (1 - 1)))))\<close>
    by (rule parse_catch_window [OF scenario_match parseInt_1 parseInt_7]) simp_all
  finally show ?thesis by simp
qed

subsection \<open>Escaped quotes\<close>

lemma rewritten_escaped_quote:
  \<open>processUnquoted escaped_quote_text replaceFromString =
     ''"a'' @ [CHR 0x5C] @ ''"{"fprime{replacement": "null"}"''\<close>
  by (simp add: escaped_quote_text_def processUnquoted_scan regex_eval)

lemma escaped_quote_is_json:
  \<open>JSON_parse escaped_quote_text (\<lambda>key v. Returns v) = Returns (JString ''a"null'')\<close>
  by (simp add: escaped_quote_text_def host_parse_eval Let_def cong: let_weak_cong)

lemma rewritten_escaped_quote_rejected:
  \<open>JSON_parse (''"a'' @ [CHR 0x5C] @ ''"{"fprime{replacement": "null"}"'') (full_reviver None) =
     Throws (Error ''SyntaxError''
       ''JSON.parse: unexpected character at line 1 column 7 of the JSON data'')\<close>
  by (simp add: host_parse_eval reviver_eval Let_def cong: let_weak_cong)

lemma marked_escaped_quote:
  \<open>processUnquoted escaped_quote_text (\<lambda>sec. ''<'' @ sec @ ''>'') =
     ''<">a'' @ [CHR 0x5C] @ ''"<null">''\<close>
  by (simp add: escaped_quote_text_def processUnquoted_scan)

lemma escaped_quote_match:
  "match_line_column (error_toString (Error ''SyntaxError''
       ''JSON.parse: unexpected character at line 1 column 7 of the JSON data'')) =
     Some (''1'', ''7'')"
  by (simp add: match_line_column_at_def is_digit_def Let_def cong: let_weak_cong)

lemma parse_escaped_quote:
  \<open>parse JSON_parse escaped_quote_text None =
     Throws (Error ''SyntaxError''
       (''SyntaxError: JSON.parse: unexpected character at line 1 column 7 of the JSON data'' @
        ''. Offending snippet: '' @ ''a'' @ [CHR 0x5C] @ ''"{"fprime''))\<close>
proof -
  have \<open>parse JSON_parse escaped_quote_text None =
      parse_catch (''"a'' @ [CHR 0x5C] @ ''"{"fprime{replacement": "null"}"'')
        (Error ''SyntaxError''
          ''JSON.parse: unexpected character at line 1 column 7 of the JSON data'')\<close>
    using parse_throws [of JSON_parse escaped_quote_text None] rewritten_escaped_quote_rejected
    unfolding rewritten_escaped_quote by simp
  also have \<open>\<dots> = Throws (Error ''SyntaxError''
      (error_toString (Error ''SyntaxError''
         ''JSON.parse: unexpected character at line 1 column 7 of the JSON data'') @
       ''. Offending snippet: '' @
       drop (7 - 6) (take (7 + 5)
         (split_lines (''"a'' @ [CHR 0x5C] @ ''"{"fprime{replacement": "null"}"'') ! (1 - 1)))))\<close>
    by (rule parse_catch_window [OF escaped_quote_match parseInt_1 parseInt_7]) simp_all
  finally show ?thesis by simp
qed

text \<open>
  C4. The scanner looks for the next double quote with \<^verbatim>\<open>indexOf("\"")\<close>, escaped or
  not. In the JSON text \<^verbatim>\<open>"a\"null"\<close>, one string, the escaped quote ends the quoted
  segment, so \<^verbatim>\<open>null"\<close> is handed to the process function as unquoted data (the marks
  \<^verbatim>\<open><\<close> and \<^verbatim>\<open>>\<close> below show the segments that are processed). The rewriter then wraps
  the \<^verbatim>\<open>null\<close> inside the string, and \<^verbatim>\<open>parse\<close> rejects a text that the host's decoder
  reads as the string \<^verbatim>\<open>a"null\<close>.
\<close>

theorem escaped_quote_ends_quoted_segment:
  \<open>processUnquoted escaped_quote_text (\<lambda>sec. ''<'' @ sec @ ''>'') =
     ''<">a'' @ [CHR 0x5C] @ ''"<null">''
   \<and> processUnquoted escaped_quote_text replaceFromString =
       ''"a'' @ [CHR 0x5C] @ ''"{"fprime{replacement": "null"}"''
   \<and> JSON_parse escaped_quote_text (\<lambda>key v. Returns v) = Returns (JString ''a"null'')
   \<and> parse JSON_parse escaped_quote_text None =
       Throws (Error ''SyntaxError''
         (''SyntaxError: JSON.parse: unexpected character at line 1 column 7 of the JSON data'' @
          ''. Offending snippet: '' @ ''a'' @ [CHR 0x5C] @ ''"{"fprime''))\<close>
  using marked_escaped_quote rewritten_escaped_quote escaped_quote_is_json parse_escaped_quote
  by (intro conjI)

section \<open>Properties of \<^verbatim>\<open>stringify\<close>\<close>

subsection \<open>The order of the composite replacer\<close>

lemma replaceFromObject_loop_first_match:
  "i < length ms \<Longrightarrow> (\<forall>j<i. mapper_matches (ms ! j) v = Returns False) \<Longrightarrow>
     mapper_matches (ms ! i) v = Returns True \<Longrightarrow>
     replaceFromObject_loop ms v = placeholder_object v"
proof (induction ms arbitrary: i)
  case Nil
  then show ?case by simp
next
  case (Cons m ms)
  show ?case
  proof (cases i)
    case 0
    then show ?thesis using Cons.prems by simp
  next
    case (Suc k)
    have first: "mapper_matches m v = Returns False" using Cons.prems(2) Suc by auto
    have "replaceFromObject_loop ms v = placeholder_object v"
    proof (rule Cons.IH [of k])
      show "k < length ms" using Cons.prems(1) Suc by simp
      show "\<forall>j<k. mapper_matches (ms ! j) v = Returns False"
        using Cons.prems(2) Suc by auto
      show "mapper_matches (ms ! k) v = Returns True" using Cons.prems(3) Suc by simp
    qed
    then show ?thesis by (simp add: first)
  qed
qed

lemma replaceFromObject_loop_no_match:
  "(\<forall>m\<in>set ms. mapper_matches m v = Returns False) \<Longrightarrow> replaceFromObject_loop ms v = Returns v"
  by (induction ms) simp_all

lemma placeholder_object_null:
  "placeholder_object JNull = Returns (JObject [(replacement_key, JString ''null'')])"
  by (simp add: placeholder_object_def)

lemma placeholder_object_other:
  "v \<noteq> JNull \<Longrightarrow> v \<noteq> JUndefined \<Longrightarrow> to_string v = Returns payload \<Longrightarrow>
     placeholder_object v = Returns (JObject [(replacement_key, JString payload)])"
  by (simp add: placeholder_object_def)

text \<open>
  The composite replacer at one key: with an array as replacer, a key that is not in it
  gives \<^verbatim>\<open>undefined\<close> and a key that is in it goes to the table; a function as replacer
  is applied first and its result goes to the table; the rows of the table are tried in
  order with the test of \<^verbatim>\<open>replaceFromObject\<close>, the first row whose test holds replaces
  the value by a placeholder whose payload is the string form of the value, \<^verbatim>\<open>null\<close> for
  \<^verbatim>\<open>null\<close>, and a value for which no test holds is returned unchanged.
\<close>

lemma full_replacer_order:
  "(JString key \<notin> set keys \<longrightarrow> full_replacer (ArrayReplacer keys) key v = Returns JUndefined)
   \<and> (JString key \<in> set keys \<longrightarrow>
        full_replacer (ArrayReplacer keys) key v = replaceFromObject key v)
   \<and> full_replacer (FunctionReplacer f) key v = bind (f key v) (replaceFromObject key)
   \<and> full_replacer NoReplacer key v = replaceFromObject key v
   \<and> (i < length MAPPINGS \<and> (\<forall>j<i. mapper_matches (MAPPINGS ! j) v = Returns False)
        \<and> mapper_matches (MAPPINGS ! i) v = Returns True \<longrightarrow>
        replaceFromObject key v = placeholder_object v)
   \<and> ((\<forall>m\<in>set MAPPINGS. mapper_matches m v = Returns False) \<longrightarrow>
        replaceFromObject key v = Returns v)
   \<and> placeholder_object JNull = Returns (JObject [(replacement_key, JString ''null'')])
   \<and> (v \<noteq> JNull \<and> v \<noteq> JUndefined \<and> to_string v = Returns payload \<longrightarrow>
        placeholder_object v = Returns (JObject [(replacement_key, JString payload)]))"
proof (intro conjI impI)
  assume "i < length MAPPINGS \<and> (\<forall>j<i. mapper_matches (MAPPINGS ! j) v = Returns False)
    \<and> mapper_matches (MAPPINGS ! i) v = Returns True"
  then show "replaceFromObject key v = placeholder_object v"
    unfolding replaceFromObject_def by (intro replaceFromObject_loop_first_match [of i]) simp_all
next
  assume "\<forall>m\<in>set MAPPINGS. mapper_matches m v = Returns False"
  then show "replaceFromObject key v = Returns v"
    unfolding replaceFromObject_def by (rule replaceFromObject_loop_no_match)
next
  assume "v \<noteq> JNull \<and> v \<noteq> JUndefined \<and> to_string v = Returns payload"
  then show "placeholder_object v = Returns (JObject [(replacement_key, JString payload)])"
    by (intro placeholder_object_other) simp_all
qed (simp_all add: placeholder_object_null)

lemma no_row_matches_5: "\<forall>m\<in>set MAPPINGS. mapper_matches m (JNumber (Finite 5)) = Returns False"
  by (simp add: MAPPINGS_def mapper_matches_def)

lemma no_row_matches_NaN: "\<forall>m\<in>set MAPPINGS. mapper_matches m (JNumber NaN) = Returns False"
  by (simp add: MAPPINGS_def mapper_matches_def)

lemma second_row_matches_Infinity:
  "1 < length MAPPINGS \<and> (\<forall>j<1. mapper_matches (MAPPINGS ! j) (JNumber PosInfinity) = Returns False)
     \<and> mapper_matches (MAPPINGS ! 1) (JNumber PosInfinity) = Returns True"
  by (simp add: MAPPINGS_def mapper_matches_def)

lemma full_replacer_order_example:
  "full_replacer (ArrayReplacer [JString ''a'']) ''b'' (JNumber PosInfinity) = Returns JUndefined
   \<and> full_replacer (ArrayReplacer [JString ''a'']) ''a'' (JNumber PosInfinity) =
       Returns (JObject [(replacement_key, JString ''Infinity'')])
   \<and> replaceFromObject ''a'' (JNumber (Finite 5)) = Returns (JNumber (Finite 5))
   \<and> replaceFromObject ''a'' (JNumber NaN) = Returns (JNumber NaN)"
proof -
  note inf = full_replacer_order [where key = "''a''" and keys = "[JString ''a'']"
      and v = "JNumber PosInfinity" and i = 1 and payload = "''Infinity''"]
  note absent = full_replacer_order [where key = "''b''" and keys = "[JString ''a'']"
      and v = "JNumber PosInfinity", THEN conjunct1, THEN mp]
  note five = full_replacer_order [where key = "''a''" and v = "JNumber (Finite 5)",
      THEN conjunct2, THEN conjunct2, THEN conjunct2, THEN conjunct2, THEN conjunct2,
      THEN conjunct1, THEN mp, OF no_row_matches_5]
  note nan = full_replacer_order [where key = "''a''" and v = "JNumber NaN",
      THEN conjunct2, THEN conjunct2, THEN conjunct2, THEN conjunct2, THEN conjunct2,
      THEN conjunct1, THEN mp, OF no_row_matches_NaN]
  have present: "full_replacer (ArrayReplacer [JString ''a'']) ''a'' (JNumber PosInfinity) =
      replaceFromObject ''a'' (JNumber PosInfinity)"
    using inf [THEN conjunct2, THEN conjunct1] by simp
  have table: "replaceFromObject ''a'' (JNumber PosInfinity) = placeholder_object (JNumber PosInfinity)"
    using inf [THEN conjunct2, THEN conjunct2, THEN conjunct2, THEN conjunct2, THEN conjunct1,
      THEN mp, OF second_row_matches_Infinity] .
  have payload: "placeholder_object (JNumber PosInfinity) =
      Returns (JObject [(replacement_key, JString ''Infinity'')])"
    using inf [THEN conjunct2, THEN conjunct2, THEN conjunct2, THEN conjunct2, THEN conjunct2,
      THEN conjunct2, THEN conjunct2] by simp
  have "full_replacer (ArrayReplacer [JString ''a'']) ''b'' (JNumber PosInfinity) = Returns JUndefined"
    by (rule absent) simp
  then show ?thesis using present table payload five nan by simp
qed

subsection \<open>Encoding \<^verbatim>\<open>undefined\<close>\<close>


lemma not_infinite_null: "string_is_infinite ''null'' negative = False"
  by (simp add: string_is_infinite_def trim_def is_whitespace_def decimal_literal_overflows_def
      nondecimal_literal_overflows_def is_digit_def radix_value_def radix_digit_value_def
      Let_def cong: let_weak_cong)

lemma replaceFromObject_null_string:
  "replaceFromObject key (JString ''null'') = Returns (JString ''null'')"
  by (simp add: replaceFromObject_def mapper_matches_def MAPPINGS_def not_infinite_null)


lemma postReplacer_null:
  \<open>postReplacer (Some ''{"fprime{replacement":"null"}'') = Returns ''null''\<close>
  by (simp add: match_placeholder_at_def is_whitespace_def Let_def cong: let_weak_cong)



lemma not_infinite_object: "string_is_infinite ''[object Object]'' negative = False"
  by (simp add: string_is_infinite_def trim_def is_whitespace_def decimal_literal_overflows_def
      nondecimal_literal_overflows_def is_digit_def radix_value_def radix_digit_value_def
      Let_def cong: let_weak_cong)








subsection \<open>The round trip\<close>

lemma replaceFromObject_null:
  "replaceFromObject key JNull = Returns (JObject [(replacement_key, JString ''null'')])"
  by (simp add: replaceFromObject_def mapper_matches_def placeholder_object_def MAPPINGS_def)

lemma serialize_null:
  \<open>serialize_property (Suc (Suc n)) replaceFromObject [] indent key JNull =
     Returns (Some ''{"fprime{replacement":"null"}'')\<close>
  by (simp add: replaceFromObject_null replaceFromObject_null_string replacement_key_def
      QuoteJSONString_def wrap_parts_def)

lemma stringify_null:
  "stringify (JSON_stringify (Suc (Suc n))) JNull NoReplacer JUndefined = Returns ''null''"
  unfolding stringify_def JSON_stringify_def full_replacer_none gap_of.simps serialize_null
    bind.simps
  by (rule postReplacer_null)

lemma replaceFromObject_NaN: "replaceFromObject key (JNumber NaN) = Returns (JNumber NaN)"
  by (simp add: encode_eval)

lemma stringify_NaN:
  "stringify (JSON_stringify (Suc n)) (JNumber NaN) NoReplacer JUndefined = Returns ''null''"
  by (simp add: stringify_def JSON_stringify_def replaceFromObject_NaN match_placeholder_at_def)

lemma rewritten_null:
  \<open>processUnquoted ''null'' replaceFromString = ''{"fprime{replacement": "null"}''\<close>
  by (simp add: processUnquoted_scan regex_eval)

lemma parse_null: "parse JSON_parse ''null'' None = Returns JNull"
  unfolding parse_def rewritten_null Let_def
  by (simp add: host_parse_eval reviver_eval Let_def cong: let_weak_cong)

lemma replaceFromObject_BigInt:
  "replaceFromObject key (JBigInt 12345678901234567890) =
     Returns (JObject [(replacement_key, JString ''12345678901234567890'')])"
  by (simp add: replaceFromObject_def mapper_matches_def placeholder_object_def MAPPINGS_def
      decimal_int_def decimal.simps digit_char_def)

lemma not_infinite_digits:
  "string_is_infinite ''12345678901234567890'' negative = False"
  by (simp add: string_is_infinite_def trim_def is_whitespace_def decimal_literal_overflows_def
      nondecimal_literal_overflows_def is_digit_def radix_value_def radix_digit_value_def
      Let_def cong: let_weak_cong)

lemma replaceFromObject_digits:
  "replaceFromObject key (JString ''12345678901234567890'') =
     Returns (JString ''12345678901234567890'')"
  by (simp add: replaceFromObject_def mapper_matches_def MAPPINGS_def not_infinite_digits)

lemma postReplacer_digits:
  \<open>postReplacer (Some ''{"fprime{replacement":"12345678901234567890"}'') =
     Returns ''12345678901234567890''\<close>
  by (simp add: match_placeholder_at_def is_whitespace_def Let_def cong: let_weak_cong)

lemma serialize_BigInt:
  \<open>serialize_property (Suc (Suc n)) replaceFromObject [] [] [] (JBigInt 12345678901234567890) =
     Returns (Some ''{"fprime{replacement":"12345678901234567890"}'')\<close>
  by (simp add: replaceFromObject_BigInt replaceFromObject_digits replacement_key_def
      QuoteJSONString_def wrap_parts_def)

lemma stringify_BigInt:
  "stringify (JSON_stringify (Suc (Suc n))) (JBigInt 12345678901234567890) NoReplacer JUndefined =
     Returns ''12345678901234567890''"
  unfolding stringify_def JSON_stringify_def full_replacer_none gap_of.simps serialize_BigInt
    bind.simps
  by (rule postReplacer_digits)

lemma infinite_Infinity:
  "string_is_infinite ''Infinity'' True = False" "string_is_infinite ''Infinity'' False = True"
  by (simp_all add: string_is_infinite_def trim_def is_whitespace_def Let_def cong: let_weak_cong)

lemma replaceFromObject_Infinity_string:
  "replaceFromObject key (JString ''Infinity'') =
     Returns (JObject [(replacement_key, JString ''Infinity'')])"
  by (simp add: replaceFromObject_def mapper_matches_def placeholder_object_def MAPPINGS_def
      infinite_Infinity)

lemma replaceFromObject_Infinity:
  "replaceFromObject key (JNumber PosInfinity) =
     Returns (JObject [(replacement_key, JString ''Infinity'')])"
  by (simp add: replaceFromObject_def mapper_matches_def placeholder_object_def MAPPINGS_def)

lemma serialize_Infinity_string_diverges:
  "serialize_property n replaceFromObject gap indent key (JString ''Infinity'') = Diverges"
proof (induction n arbitrary: indent key)
  case 0
  show ?case by simp
next
  case (Suc n)
  show ?case by (simp add: replaceFromObject_Infinity_string Suc)
qed

lemma stringify_Infinity_diverges:
  "stringify (JSON_stringify n) (JNumber PosInfinity) NoReplacer space = Diverges"
proof (cases n)
  case 0
  then show ?thesis by (simp add: stringify_def JSON_stringify_def)
next
  case (Suc m)
  then show ?thesis
    by (simp add: stringify_def JSON_stringify_def full_replacer_none replaceFromObject_Infinity
        serialize_Infinity_string_diverges)
qed

lemma infinite_minus_Infinity:
  "string_is_infinite ''-Infinity'' True = True"
  by (simp add: string_is_infinite_def trim_def is_whitespace_def Let_def cong: let_weak_cong)

lemma replaceFromObject_minus_Infinity_string:
  "replaceFromObject key (JString ''-Infinity'') =
     Returns (JObject [(replacement_key, JString ''-Infinity'')])"
  by (simp add: replaceFromObject_def mapper_matches_def placeholder_object_def MAPPINGS_def
      infinite_minus_Infinity)

lemma replaceFromObject_minus_Infinity:
  "replaceFromObject key (JNumber NegInfinity) =
     Returns (JObject [(replacement_key, JString ''-Infinity'')])"
  by (simp add: replaceFromObject_def mapper_matches_def placeholder_object_def MAPPINGS_def)

lemma serialize_minus_Infinity_string_diverges:
  "serialize_property n replaceFromObject gap indent key (JString ''-Infinity'') = Diverges"
proof (induction n arbitrary: indent key)
  case 0
  show ?case by simp
next
  case (Suc n)
  show ?case by (simp add: replaceFromObject_minus_Infinity_string Suc)
qed

lemma stringify_minus_Infinity_diverges:
  "stringify (JSON_stringify n) (JNumber NegInfinity) NoReplacer space = Diverges"
proof (cases n)
  case 0
  then show ?thesis by (simp add: stringify_def JSON_stringify_def)
next
  case (Suc m)
  then show ?thesis
    by (simp add: stringify_def JSON_stringify_def full_replacer_none
        replaceFromObject_minus_Infinity serialize_minus_Infinity_string_diverges)
qed

lemma rewritten_minus_Infinity:
  \<open>processUnquoted ''-Infinity'' replaceFromString =
     ''{"fprime{replacement": "-{"fprime{replacement": "Infinity"}"}''\<close>
  by (simp add: processUnquoted_scan regex_eval)

lemma rewritten_minus_Infinity_rejected:
  \<open>JSON_parse ''{"fprime{replacement": "-{"fprime{replacement": "Infinity"}"}''
       (full_reviver None) =
     Throws (Error ''SyntaxError''
       ''JSON.parse: unexpected character at line 1 column 28 of the JSON data'')\<close>
  by (simp add: host_parse_eval reviver_eval Let_def cong: let_weak_cong)

lemma minus_Infinity_match:
  "match_line_column (error_toString (Error ''SyntaxError''
       ''JSON.parse: unexpected character at line 1 column 28 of the JSON data'')) =
     Some (''1'', ''28'')"
  by (simp add: match_line_column_at_def is_digit_def Let_def cong: let_weak_cong)

lemma parseInt_28: "parseInt ''28'' = Finite (int 28)"
  by (simp add: parseInt_def is_whitespace_def is_radix_digit_def radix_value_def
      radix_digit_value_def round_to_double_def round_magnitude_def Let_def cong: let_weak_cong)

lemma parse_minus_Infinity:
  \<open>parse JSON_parse ''-Infinity'' None =
     Throws (Error ''SyntaxError''
       (''SyntaxError: JSON.parse: unexpected character at line 1 column 28 of the JSON data'' @
        ''. Offending snippet: '' @ '' "-{"fprime''))\<close>
proof -
  have \<open>parse JSON_parse ''-Infinity'' None =
      parse_catch ''{"fprime{replacement": "-{"fprime{replacement": "Infinity"}"}''
        (Error ''SyntaxError''
          ''JSON.parse: unexpected character at line 1 column 28 of the JSON data'')\<close>
    using parse_throws [of JSON_parse \<open>''-Infinity''\<close> None] rewritten_minus_Infinity_rejected
    unfolding rewritten_minus_Infinity by simp
  also have \<open>\<dots> = Throws (Error ''SyntaxError''
      (error_toString (Error ''SyntaxError''
         ''JSON.parse: unexpected character at line 1 column 28 of the JSON data'') @
       ''. Offending snippet: '' @
       drop (28 - 6) (take (28 + 5)
         (split_lines ''{"fprime{replacement": "-{"fprime{replacement": "Infinity"}"}'' ! (1 - 1)))))\<close>
    by (rule parse_catch_window [OF minus_Infinity_match parseInt_1 parseInt_28]) simp_all
  finally show ?thesis by simp
qed

lemma rewritten_Infinity:
  \<open>processUnquoted ''Infinity'' replaceFromString = ''{"fprime{replacement": "Infinity"}''\<close>
  by (simp add: processUnquoted_scan regex_eval)

lemma parse_Infinity: "parse JSON_parse ''Infinity'' None = Returns (JNumber PosInfinity)"
  unfolding parse_def rewritten_Infinity Let_def
  by (simp add: host_parse_eval reviver_eval Let_def cong: let_weak_cong)

lemma rewritten_NaN:
  \<open>processUnquoted ''NaN'' replaceFromString = ''{"fprime{replacement": "NaN"}''\<close>
  by (simp add: processUnquoted_scan regex_eval)

lemma parse_NaN: "parse JSON_parse ''NaN'' None = Returns (JNumber NaN)"
  unfolding parse_def rewritten_NaN Let_def
  by (simp add: host_parse_eval reviver_eval Let_def cong: let_weak_cong)

text \<open>
  C1. The round trip holds for \<^verbatim>\<open>null\<close> only. \<^verbatim>\<open>NaN\<close> is loosely equal to nothing,
  itself included, so no row of the table matches it: the host writes it as \<^verbatim>\<open>null\<close>,
  which decodes to \<^verbatim>\<open>null\<close>. A BigInt is written as its bare digits, which at the top
  level (and after \<^verbatim>\<open>[\<close>, \<^verbatim>\<open>:\<close> or \<^verbatim>\<open>,\<close>) decode to the nearest Number, with other
  digits. For the two infinities the payload of the placeholder, the string
  \<^verbatim>\<open>Infinity\<close> or \<^verbatim>\<open>-Infinity\<close>, is loosely equal to the sentinel again, so the replacer
  wraps it at every level and the serialization does not end, whatever the depth \<open>n\<close>
  the host allows. The text \<^verbatim>\<open>-Infinity\<close> is not decoded either: after the first
  row has wrapped it, the second row matches the \<^verbatim>\<open>Infinity\<close> inside the payload and
  wraps that again, and the host rejects the result.
\<close>

theorem round_trip_fails:
  \<open>stringify (JSON_stringify (Suc (Suc n))) JNull NoReplacer JUndefined = Returns ''null''
   \<and> stringify (JSON_stringify (Suc (Suc n))) (JNumber NaN) NoReplacer JUndefined = Returns ''null''
   \<and> parse JSON_parse ''null'' None = Returns JNull
   \<and> stringify (JSON_stringify (Suc (Suc n))) (JBigInt 12345678901234567890) NoReplacer JUndefined =
       Returns ''12345678901234567890''
   \<and> parse JSON_parse ''12345678901234567890'' None =
       Returns (JNumber (Finite 12345678901234567168))
   \<and> stringify (JSON_stringify n) (JNumber PosInfinity) NoReplacer space = Diverges
   \<and> stringify (JSON_stringify n) (JNumber NegInfinity) NoReplacer space = Diverges
   \<and> parse JSON_parse ''-Infinity'' None =
       Throws (Error ''SyntaxError''
         (''SyntaxError: JSON.parse: unexpected character at line 1 column 28 of the JSON data'' @
          ''. Offending snippet: '' @ '' "-{"fprime''))\<close>
  using stringify_null stringify_NaN [of "Suc n"] parse_null stringify_BigInt parse_digits
    stringify_Infinity_diverges stringify_minus_Infinity_diverges parse_minus_Infinity
  by (intro conjI)

subsection \<open>An array as replacer\<close>

lemma stringify_array_replacer_root:
  "JString [] \<notin> set keys \<Longrightarrow>
   stringify (JSON_stringify (Suc n)) data (ArrayReplacer keys) space =
     Throws (Error ''TypeError'' ''Cannot read properties of undefined'')"
  by (simp add: stringify_def JSON_stringify_def)

lemma replaceFromObject_5: "replaceFromObject key (JNumber (Finite 5)) = Returns (JNumber (Finite 5))"
  by (simp add: replaceFromObject_def mapper_matches_def MAPPINGS_def)

lemma Number_toString_5: "Number_toString (Finite 5) = ''5''"
  by (simp add: magnitude_toString_def shortest_digits.simps digits_candidate_def
      round_magnitude_def bit_length.simps decimal.simps digit_char_def Let_def
      cong: let_weak_cong)

lemma to_string_two_fields:
  "to_string (JObject [(''a'', x), (''b'', y)]) = Returns ''[object Object]''"
  by simp

lemma replaceFromObject_two_fields:
  "replaceFromObject key (JObject [(''a'', x), (''b'', y)]) =
     Returns (JObject [(''a'', x), (''b'', y)])"
  by (simp add: replaceFromObject_def mapper_matches_def MAPPINGS_def not_infinite_object
      del: to_string.simps add: to_string_two_fields cong: bind_weak_cong)

lemma serialize_listed_field:
  \<open>serialize_property (Suc (Suc n)) (full_replacer (ArrayReplacer [JString [], JString ''a'']))
       [] [] [] (JObject [(''a'', JNumber (Finite 5)), (''b'', JNumber (Finite 7))]) =
     Returns (Some ''{"a":5}'')\<close>
  by (simp add: replaceFromObject_two_fields replaceFromObject_5 Number_toString_5
      QuoteJSONString_def wrap_parts_def del: Number_toString.simps cong: bind_weak_cong)

lemma postReplacer_listed_field: \<open>postReplacer (Some ''{"a":5}'') = Returns ''{"a":5}''\<close>
  by (simp add: match_placeholder_at_def is_whitespace_def Let_def cong: let_weak_cong)

lemma stringify_listed_field:
  \<open>stringify (JSON_stringify (Suc (Suc n)))
       (JObject [(''a'', JNumber (Finite 5)), (''b'', JNumber (Finite 7))])
       (ArrayReplacer [JString [], JString ''a'']) JUndefined =
     Returns ''{"a":5}''\<close>
  unfolding stringify_def JSON_stringify_def gap_of.simps serialize_listed_field bind.simps
  by (rule postReplacer_listed_field)

lemma to_string_5_7:
  "to_string (JArray [JNumber (Finite 5), JNumber (Finite 7)]) = Returns ''5,7''"
  by (simp add: Number_toString_5 magnitude_toString_def shortest_digits.simps
      digits_candidate_def round_magnitude_def bit_length.simps decimal.simps digit_char_def
      Let_def cong: let_weak_cong)

lemma not_infinite_5_7: "string_is_infinite ''5,7'' negative = False"
  by (simp add: string_is_infinite_def trim_def is_whitespace_def decimal_literal_overflows_def
      nondecimal_literal_overflows_def is_digit_def radix_value_def radix_digit_value_def
      Let_def cong: let_weak_cong)

lemma replaceFromObject_5_7:
  "replaceFromObject key (JArray [JNumber (Finite 5), JNumber (Finite 7)]) =
     Returns (JArray [JNumber (Finite 5), JNumber (Finite 7)])"
  by (simp add: replaceFromObject_def mapper_matches_def MAPPINGS_def not_infinite_5_7
      del: to_string.simps add: to_string_5_7 cong: bind_weak_cong)

lemma serialize_unlisted_elements:
  \<open>serialize_property (Suc (Suc n)) (full_replacer (ArrayReplacer [JString []]))
       [] [] [] (JArray [JNumber (Finite 5), JNumber (Finite 7)]) =
     Returns (Some ''[null,null]'')\<close>
  by (simp add: replaceFromObject_5_7 wrap_parts_def decimal.simps digit_char_def
      del: Number_toString.simps cong: bind_weak_cong)

lemma postReplacer_null_elements: \<open>postReplacer (Some ''[null,null]'') = Returns ''[null,null]''\<close>
  by (simp add: match_placeholder_at_def is_whitespace_def Let_def cong: let_weak_cong)

lemma stringify_unlisted_elements:
  \<open>stringify (JSON_stringify (Suc (Suc n))) (JArray [JNumber (Finite 5), JNumber (Finite 7)])
       (ArrayReplacer [JString []]) JUndefined =
     Returns ''[null,null]''\<close>
  unfolding stringify_def JSON_stringify_def gap_of.simps serialize_unlisted_elements bind.simps
  by (rule postReplacer_null_elements)

text \<open>
  C8. With an array as replacer the composite replacer answers \<^verbatim>\<open>undefined\<close> for every
  key that is not in the array, and the first key the host's encoder asks about is the
  empty key of the value as a whole. So unless the array holds the empty string, the host
  returns \<^verbatim>\<open>undefined\<close> in place of a text and \<^verbatim>\<open>postReplacer\<close> throws a TypeError:
  no field is dropped, there is no output. With the empty string in the array, the fields
  of an object that are not listed are left out, the elements of an array, whose keys are
  their indices, are written as \<^verbatim>\<open>null\<close>, and \<^verbatim>\<open>NaN\<close>, a sentinel of the table, matches
  no row and is passed through unchanged.
\<close>

theorem array_replacer_drops_root:
  \<open>(JString [] \<notin> set keys \<longrightarrow>
       stringify (JSON_stringify (Suc n)) data (ArrayReplacer keys) space =
         Throws (Error ''TypeError'' ''Cannot read properties of undefined''))
   \<and> stringify (JSON_stringify (Suc (Suc n)))
         (JObject [(''a'', JNumber (Finite 5)), (''b'', JNumber (Finite 7))])
         (ArrayReplacer [JString [], JString ''a'']) JUndefined =
       Returns ''{"a":5}''
   \<and> stringify (JSON_stringify (Suc (Suc n))) (JArray [JNumber (Finite 5), JNumber (Finite 7)])
         (ArrayReplacer [JString []]) JUndefined =
       Returns ''[null,null]''
   \<and> replaceFromObject key (JNumber NaN) = Returns (JNumber NaN)\<close>
  using stringify_array_replacer_root [of keys n data space] stringify_listed_field
    stringify_unlisted_elements replaceFromObject_NaN
  by (intro conjI impI)

theorem array_replacer_drops_root_witness:
  "stringify (JSON_stringify (Suc (Suc 0)))
       (JObject [(''a'', JNumber (Finite 5)), (''b'', JNumber (Finite 7))])
       (ArrayReplacer [JString ''a'']) JUndefined =
     Throws (Error ''TypeError'' ''Cannot read properties of undefined'')"
proof -
  have h: "JString [] \<notin> set [JString ''a'']" by simp
  show ?thesis
    by (rule array_replacer_drops_root [where keys = "[JString ''a'']", THEN conjunct1,
        THEN mp, OF h])
qed

end
